theory Spec2Isabelle
  imports Complex_Main
begin

section \<open>Values shared by the ledger, the router and the tools\<close>

text \<open>
  Python exceptions are values. Only the classes that the source names in an
  \<^verbatim>\<open>except\<close> clause or raises itself are told apart; every one of them is a
  subclass of \<^verbatim>\<open>Exception\<close>. The string is what \<^verbatim>\<open>str(e)\<close> returns.
\<close>

datatype exn_class =
    JSONDecodeError | ValueError | TypeError | KeyError | IndexError
  | AttributeError | ClientError | OtherException

datatype py_exn = PyExn (exn_cls: exn_class) (exn_str: string)

text \<open>
  A Python float is carried without its arithmetic: the code only tests floats for
  truth and formats them.
\<close>

datatype py_float = Float real | NaN | Infinity bool

text \<open>
  The values \<^verbatim>\<open>json.loads\<close> produces and \<^verbatim>\<open>json.dumps\<close> accepts. A dict is an
  association list in insertion order; \<^verbatim>\<open>None\<close> is \<open>JNull\<close>.
\<close>

datatype json =
    JNull | JBool bool | JInt int | JFloat py_float | JString string
  | JArray "json list" | JObject "(string \<times> json) list"

section \<open>The conversation ledger (assistant/memory.py)\<close>

text \<open>
  A ledger entry is a dict with the keys \<^verbatim>\<open>role\<close> and \<^verbatim>\<open>content\<close>, and
  \<^verbatim>\<open>tool_name\<close> on tool entries only.
\<close>

record message =
  role :: string
  content :: string
  msg_tool_name :: "string option"

record ConversationMemory =
  max_turns :: int
  messages :: "message list"

text \<open>Python's \<^verbatim>\<open>xs[:j]\<close> and \<^verbatim>\<open>xs[i:]\<close> for any integer index.\<close>

definition slice_to :: "'a list \<Rightarrow> int \<Rightarrow> 'a list" where
  "slice_to xs j =
     (if j < 0 then take (nat (int (length xs) + j)) xs else take (nat j) xs)"

definition slice_from :: "'a list \<Rightarrow> int \<Rightarrow> 'a list" where
  "slice_from xs i =
     (if i < 0 then drop (nat (int (length xs) + i)) xs else drop (nat i) xs)"

definition init_memory :: "int \<Rightarrow> ConversationMemory" where
  "init_memory mt = \<lparr>max_turns = mt, messages = []\<rparr>"

definition truncate_history :: "ConversationMemory \<Rightarrow> ConversationMemory" where
  "truncate_history m =
     (if int (length (messages m)) \<le> max_turns m * 2 then m
      else
        let has_system = (messages m \<noteq> [] \<and> role (hd (messages m)) = ''system'');
            start_idx = (if has_system then 1 else 0);
            num_to_remove =
              int (length (messages m)) - (max_turns m * 2) - (if has_system then 1 else 0)
        in m\<lparr>messages :=
               slice_to (messages m) start_idx
               @ slice_from (messages m) (start_idx + num_to_remove)\<rparr>)"

definition user_turn :: "string \<Rightarrow> message" where
  "user_turn c = \<lparr>role = ''user'', content = c, msg_tool_name = None\<rparr>"

definition assistant_turn :: "string \<Rightarrow> message" where
  "assistant_turn c = \<lparr>role = ''assistant'', content = c, msg_tool_name = None\<rparr>"

text \<open>
  The tool entry stores \<^verbatim>\<open>json.dumps(content)\<close>; the serialiser is the standard
  library's and is a parameter \<open>dumps\<close> here.
\<close>

definition tool_turn :: "(json \<Rightarrow> string) \<Rightarrow> string \<Rightarrow> json \<Rightarrow> message" where
  "tool_turn dumps name c = \<lparr>role = ''tool'', content = dumps c, msg_tool_name = Some name\<rparr>"

definition add_user_message :: "ConversationMemory \<Rightarrow> string \<Rightarrow> ConversationMemory" where
  "add_user_message m c = truncate_history (m\<lparr>messages := messages m @ [user_turn c]\<rparr>)"

definition add_assistant_message :: "ConversationMemory \<Rightarrow> string \<Rightarrow> ConversationMemory" where
  "add_assistant_message m c =
     truncate_history (m\<lparr>messages := messages m @ [assistant_turn c]\<rparr>)"

definition add_tool_message ::
  "(json \<Rightarrow> string) \<Rightarrow> ConversationMemory \<Rightarrow> string \<Rightarrow> json \<Rightarrow> ConversationMemory" where
  "add_tool_message dumps m name c =
     truncate_history (m\<lparr>messages := messages m @ [tool_turn dumps name c]\<rparr>)"

text \<open>\<^verbatim>\<open>get_messages\<close> returns a copy of the list; as a value it is the list.\<close>

definition get_messages :: "ConversationMemory \<Rightarrow> message list" where
  "get_messages m = messages m"

definition clear :: "ConversationMemory \<Rightarrow> ConversationMemory" where
  "clear m = m\<lparr>messages := []\<rparr>"

text \<open>One append, whichever of the three methods makes it.\<close>

datatype append_op = AddUser string | AddAssistant string | AddTool string json

fun turn_of :: "(json \<Rightarrow> string) \<Rightarrow> append_op \<Rightarrow> message" where
  "turn_of dumps (AddUser c) = user_turn c"
| "turn_of dumps (AddAssistant c) = assistant_turn c"
| "turn_of dumps (AddTool name c) = tool_turn dumps name c"

fun append_turn :: "(json \<Rightarrow> string) \<Rightarrow> ConversationMemory \<Rightarrow> append_op \<Rightarrow> ConversationMemory" where
  "append_turn dumps m (AddUser c) = add_user_message m c"
| "append_turn dumps m (AddAssistant c) = add_assistant_message m c"
| "append_turn dumps m (AddTool name c) = add_tool_message dumps m name c"

definition pinned :: "message list \<Rightarrow> bool" where
  "pinned pre = (case pre of [] \<Rightarrow> True | [s] \<Rightarrow> role s = ''system'' | _ \<Rightarrow> False)"

section \<open>The ledger as Python objects\<close>

text \<open>
  The list \<^verbatim>\<open>self.messages\<close> and the dicts in it are objects in a store, so that
  sharing between the ledger and a list handed out by \<^verbatim>\<open>get_messages\<close> is visible.
  \<^verbatim>\<open>append\<close> updates the list object in place; the slices and the concatenation
  in \<^verbatim>\<open>_truncate_history\<close> build a new list object, to which \<^verbatim>\<open>self.messages\<close> is
  rebound; \<^verbatim>\<open>list.copy\<close> builds a new list object holding the same references.
\<close>

type_synonym addr = nat

datatype py_obj = ListObj "addr list" | DictObj message

record heap =
  objs :: "addr \<Rightarrow> py_obj option"
  next_addr :: addr

record memory_obj =
  self_max_turns :: int
  self_messages :: addr

definition alloc :: "heap \<Rightarrow> py_obj \<Rightarrow> addr \<times> heap" where
  "alloc h ob = (next_addr h, h\<lparr>objs := (objs h)(next_addr h \<mapsto> ob), next_addr := Suc (next_addr h)\<rparr>)"

definition store :: "heap \<Rightarrow> addr \<Rightarrow> py_obj \<Rightarrow> heap" where
  "store h a ob = h\<lparr>objs := (objs h)(a \<mapsto> ob)\<rparr>"

definition list_at :: "heap \<Rightarrow> addr \<Rightarrow> addr list" where
  "list_at h a = (case objs h a of Some (ListObj xs) \<Rightarrow> xs | _ \<Rightarrow> [])"

definition dict_at :: "heap \<Rightarrow> addr \<Rightarrow> message" where
  "dict_at h a =
     (case objs h a of Some (DictObj d) \<Rightarrow> d
      | _ \<Rightarrow> \<lparr>role = [], content = [], msg_tool_name = None\<rparr>)"

definition new_memory :: "heap \<Rightarrow> int \<Rightarrow> heap \<times> memory_obj" where
  "new_memory h mt =
     (let (l, h') = alloc h (ListObj [])
      in (h', \<lparr>self_max_turns = mt, self_messages = l\<rparr>))"

definition obj_truncate_history :: "heap \<Rightarrow> memory_obj \<Rightarrow> heap \<times> memory_obj" where
  "obj_truncate_history h self =
     (let xs = list_at h (self_messages self) in
      if int (length xs) \<le> self_max_turns self * 2 then (h, self)
      else
        let has_system = (xs \<noteq> [] \<and> role (dict_at h (hd xs)) = ''system'');
            start_idx = (if has_system then 1 else 0);
            num_to_remove = int (length xs) - (self_max_turns self * 2) - (if has_system then 1 else 0);
            (l, h') = alloc h (ListObj (slice_to xs start_idx @ slice_from xs (start_idx + num_to_remove)))
        in (h', self\<lparr>self_messages := l\<rparr>))"

definition obj_append :: "heap \<Rightarrow> memory_obj \<Rightarrow> message \<Rightarrow> heap \<times> memory_obj" where
  "obj_append h self d =
     (let (a, h1) = alloc h (DictObj d);
          h2 = store h1 (self_messages self) (ListObj (list_at h1 (self_messages self) @ [a]))
      in obj_truncate_history h2 self)"

definition obj_get_messages :: "heap \<Rightarrow> memory_obj \<Rightarrow> addr \<times> heap" where
  "obj_get_messages h self = alloc h (ListObj (list_at h (self_messages self)))"

definition ledger :: "heap \<Rightarrow> memory_obj \<Rightarrow> ConversationMemory" where
  "ledger h self =
     \<lparr>max_turns = self_max_turns self,
      messages = map (dict_at h) (list_at h (self_messages self))\<rparr>"

text \<open>The ledger's list exists and holds references to dicts only.\<close>

definition is_list_at :: "heap \<Rightarrow> addr \<Rightarrow> bool" where
  "is_list_at h a = (case objs h a of Some (ListObj xs) \<Rightarrow> True | _ \<Rightarrow> False)"

definition is_dict_at :: "heap \<Rightarrow> addr \<Rightarrow> bool" where
  "is_dict_at h a = (case objs h a of Some (DictObj d) \<Rightarrow> True | _ \<Rightarrow> False)"

definition wf_ledger :: "heap \<Rightarrow> memory_obj \<Rightarrow> bool" where
  "wf_ledger h self =
     (self_messages self < next_addr h \<and> is_list_at h (self_messages self) \<and>
      list_all (\<lambda>a. a < next_addr h \<and> is_dict_at h a) (list_at h (self_messages self)))"

text \<open>The ledger a sequence of appends leads to.\<close>

definition obj_appends :: "heap \<Rightarrow> memory_obj \<Rightarrow> message list \<Rightarrow> heap \<times> memory_obj" where
  "obj_appends h self ds = foldl (\<lambda>(h, self) d. obj_append h self d) (h, self) ds"

definition ledger_after :: "heap \<Rightarrow> memory_obj \<Rightarrow> message list \<Rightarrow> ConversationMemory" where
  "ledger_after h self ds = (let (h', self') = obj_appends h self ds in ledger h' self')"

text \<open>
  What a caller can do with \<^verbatim>\<open>snap = memory.get_messages()\<close>: change the list \<open>snap\<close>
  itself in any way, leaving it with the elements \<open>ys\<close>, or assign to a key of one of
  the dicts in it, \<^verbatim>\<open>snap[i]["content"] = v\<close>.
\<close>

definition snapshot_set_list :: "heap \<Rightarrow> memory_obj \<Rightarrow> addr list \<Rightarrow> heap" where
  "snapshot_set_list h self ys =
     (let (snap, h1) = obj_get_messages h self in store h1 snap (ListObj ys))"

definition snapshot_set_content :: "heap \<Rightarrow> memory_obj \<Rightarrow> nat \<Rightarrow> string \<Rightarrow> heap" where
  "snapshot_set_content h self i v =
     (let (snap, h1) = obj_get_messages h self in
      if i < length (list_at h1 snap)
      then store h1 (list_at h1 snap ! i) (DictObj ((dict_at h1 (list_at h1 snap ! i))\<lparr>content := v\<rparr>))
      else h1)"

text \<open>A ledger of ten turns after \<^verbatim>\<open>add_user_message("hi")\<close>.\<close>

definition one_turn_ledger :: "heap \<times> memory_obj" where
  "one_turn_ledger =
     (let (h, self) = new_memory \<lparr>objs = Map.empty, next_addr = 0\<rparr> 10
      in obj_append h self (user_turn ''hi''))"

definition append_plain :: "ConversationMemory \<Rightarrow> message \<Rightarrow> ConversationMemory" where
  "append_plain m d = truncate_history (m\<lparr>messages := messages m @ [d]\<rparr>)"

section \<open>Tool-call extraction (assistant/router.py)\<close>

text \<open>
  Text is a list of one-byte code points. \<^verbatim>\<open>\s\<close> in a Python \<^verbatim>\<open>str\<close> pattern is
  Unicode white space; below 256 that is the following set.
\<close>

definition is_space :: "char \<Rightarrow> bool" where
  "is_space c = (c \<in> set [CHR 0x09, CHR 0x0A, CHR 0x0B, CHR 0x0C, CHR 0x0D,
                           CHR 0x1C, CHR 0x1D, CHR 0x1E, CHR 0x1F, CHR '' '',
                           CHR 0x85, CHR 0xA0])"

text \<open>
  The pattern \<^verbatim>\<open>```(?:json)?\s*([\s\S]*?)\s*```\<close> as a backtracking matcher in
  continuation style: each piece receives what must match after it and tries its
  alternatives in the order of the regular-expression engine, a greedy piece the
  longest first, a lazy one the shortest first. The result is the first success.
\<close>

definition fence :: string where
  "fence = ''```''"

definition json_tag :: string where
  "json_tag = ''json''"

definition lit :: "string \<Rightarrow> (string \<Rightarrow> 'a option) \<Rightarrow> string \<Rightarrow> 'a option" where
  "lit p k s = (if take (length p) s = p then k (drop (length p) s) else None)"

definition opt_greedy ::
  "((string \<Rightarrow> 'a option) \<Rightarrow> string \<Rightarrow> 'a option) \<Rightarrow> (string \<Rightarrow> 'a option) \<Rightarrow> string \<Rightarrow> 'a option" where
  "opt_greedy r k s = (case r k s of Some x \<Rightarrow> Some x | None \<Rightarrow> k s)"

fun star_space_greedy :: "(string \<Rightarrow> 'a option) \<Rightarrow> string \<Rightarrow> 'a option" where
  "star_space_greedy k [] = k []"
| "star_space_greedy k (c # s) =
     (if is_space c
      then (case star_space_greedy k s of Some x \<Rightarrow> Some x | None \<Rightarrow> k (c # s))
      else k (c # s))"

fun star_any_lazy :: "(string \<Rightarrow> string \<Rightarrow> 'a option) \<Rightarrow> string \<Rightarrow> string \<Rightarrow> 'a option" where
  "star_any_lazy k grp [] = k grp []"
| "star_any_lazy k grp (c # s) =
     (case k grp (c # s) of Some x \<Rightarrow> Some x | None \<Rightarrow> star_any_lazy k (grp @ [c]) s)"

text \<open>A match at the start of \<open>s\<close>: group 1 and the text after the match.\<close>

definition match_fence :: "string \<Rightarrow> (string \<times> string) option" where
  "match_fence s =
     lit fence (opt_greedy (lit json_tag) (star_space_greedy (\<lambda>s1.
       star_any_lazy (\<lambda>grp. star_space_greedy (lit fence (\<lambda>rest. Some (grp, rest)))) [] s1))) s"

lemma lit_Some: "lit p k s = Some x \<longleftrightarrow> (\<exists>t. s = p @ t \<and> k t = Some x)"
proof
  assume "lit p k s = Some x"
  then have a: "take (length p) s = p" and b: "k (drop (length p) s) = Some x"
    by (simp_all add: lit_def split: if_splits)
  have "s = p @ drop (length p) s"
    using a append_take_drop_id [of "length p" s] by simp
  with b show "\<exists>t. s = p @ t \<and> k t = Some x" by blast
next
  assume "\<exists>t. s = p @ t \<and> k t = Some x"
  then show "lit p k s = Some x" by (auto simp: lit_def)
qed

lemma star_space_greedy_Some:
  "star_space_greedy k s = Some x \<Longrightarrow> \<exists>ws t. s = ws @ t \<and> list_all is_space ws \<and> k t = Some x"
proof (induction s)
  case Nil
  then show ?case by simp
next
  case (Cons c s)
  show ?case
  proof (cases "is_space c \<and> star_space_greedy k s = Some x")
    case True
    with Cons.IH obtain ws t where "s = ws @ t" "list_all is_space ws" "k t = Some x" by blast
    with True have "c # s = (c # ws) @ t \<and> list_all is_space (c # ws) \<and> k t = Some x" by simp
    then show ?thesis by blast
  next
    case False
    with Cons.prems have "k (c # s) = Some x" by (auto split: if_splits option.splits)
    then have "c # s = [] @ (c # s) \<and> list_all is_space [] \<and> k (c # s) = Some x" by simp
    then show ?thesis by blast
  qed
qed

lemma star_any_lazy_Some:
  "star_any_lazy k grp s = Some x \<Longrightarrow> \<exists>a t. s = a @ t \<and> k (grp @ a) t = Some x"
proof (induction s arbitrary: grp)
  case Nil
  then show ?case by simp
next
  case (Cons c s)
  show ?case
  proof (cases "k grp (c # s)")
    case (Some y)
    with Cons.prems have "k (grp @ []) (c # s) = Some x" by simp
    then show ?thesis by (metis append_Nil)
  next
    case None
    with Cons.prems have "star_any_lazy k (grp @ [c]) s = Some x" by simp
    from Cons.IH [OF this] obtain a t where "s = a @ t" "k ((grp @ [c]) @ a) t = Some x" by blast
    then have "c # s = (c # a) @ t \<and> k (grp @ (c # a)) t = Some x" by simp
    then show ?thesis by blast
  qed
qed

text \<open>What a match is made of.\<close>

lemma opt_greedy_lit_Some:
  assumes "opt_greedy (lit p) k s = Some x"
  shows "\<exists>lang t. s = lang @ t \<and> (lang = [] \<or> lang = p) \<and> k t = Some x"
proof (cases "lit p k s")
  case None
  with assms have "k s = Some x" by (simp add: opt_greedy_def)
  then have "s = [] @ s \<and> ([] = [] \<or> [] = p) \<and> k s = Some x" by simp
  then show ?thesis by blast
next
  case (Some y)
  with assms have "lit p k s = Some x" by (simp add: opt_greedy_def)
  then obtain t where "s = p @ t" "k t = Some x" unfolding lit_Some by blast
  then show ?thesis by blast
qed

lemma match_fence_Some:
  assumes "match_fence s = Some (grp, rest)"
  shows "\<exists>lang ws1 ws2. s = fence @ lang @ ws1 @ grp @ ws2 @ fence @ rest
           \<and> (lang = [] \<or> lang = json_tag) \<and> list_all is_space ws1 \<and> list_all is_space ws2"
proof -
  let ?inner = "\<lambda>g. star_space_greedy (lit fence (\<lambda>rest. Some (g, rest)))"
  let ?body = "star_space_greedy (\<lambda>s1. star_any_lazy ?inner [] s1)"
  from assms obtain t0 where t0: "s = fence @ t0"
    and o: "opt_greedy (lit json_tag) ?body t0 = Some (grp, rest)"
    unfolding match_fence_def lit_Some by blast
  from opt_greedy_lit_Some [OF o] obtain lang t1 where t1: "t0 = lang @ t1"
    and lang: "lang = [] \<or> lang = json_tag"
    and b: "?body t1 = Some (grp, rest)" by blast
  from star_space_greedy_Some [OF b] obtain ws1 t2 where t2: "t1 = ws1 @ t2"
    and ws1: "list_all is_space ws1"
    and l: "star_any_lazy ?inner [] t2 = Some (grp, rest)" by blast
  from star_any_lazy_Some [OF l] obtain a t3 where t3: "t2 = a @ t3"
    and i: "?inner ([] @ a) t3 = Some (grp, rest)" by blast
  from star_space_greedy_Some [OF i] obtain ws2 t4 where t4: "t3 = ws2 @ t4"
    and ws2: "list_all is_space ws2"
    and f: "lit fence (\<lambda>rest. Some ([] @ a, rest)) t4 = Some (grp, rest)" by blast
  from f obtain t5 where "t4 = fence @ t5" "Some ([] @ a, t5) = Some (grp, rest)"
    unfolding lit_Some by blast
  then have "t4 = fence @ rest" "a = grp" by simp_all
  with t0 t1 t2 t3 t4 have "s = fence @ lang @ ws1 @ grp @ ws2 @ fence @ rest" by simp
  with lang ws1 ws2 show ?thesis by blast
qed

lemma match_fence_shorter:
  assumes "match_fence s = Some (grp, rest)"
  shows "length rest < length s"
proof -
  from match_fence_Some [OF assms] obtain lang ws1 ws2
    where "s = fence @ lang @ ws1 @ grp @ ws2 @ fence @ rest" by blast
  then have "length s = length fence + length lang + length ws1 + length grp
                 + length ws2 + length fence + length rest"
    by simp
  moreover have "length fence = 3" by (simp add: fence_def)
  ultimately show ?thesis by simp
qed

text \<open>
  \<^verbatim>\<open>re.findall\<close>: scan from the left; at a match keep group 1 and go on after the
  match, otherwise move one character on.
\<close>

function findall :: "string \<Rightarrow> string list" where
  "findall [] = []"
| "findall (c # s) =
     (case match_fence (c # s) of
        Some (grp, rest) \<Rightarrow> grp # findall rest
      | None \<Rightarrow> findall s)"
  by pat_completeness auto
termination
proof (relation "measure length")
  show "wf (measure length)" by simp
next
  fix c s x grp rest
  assume "match_fence (c # s) = Some x" and "(grp, rest) = x"
  then have "length rest < length (c # s)" using match_fence_shorter [of "c # s" grp rest] by simp
  then show "(rest, c # s) \<in> measure length" by simp
next
  fix c s
  show "(s, c # s) \<in> measure length" by simp
qed

fun dict_has_key :: "json \<Rightarrow> string \<Rightarrow> bool" where
  "dict_has_key (JObject kvs) k = (k \<in> set (map fst kvs))"
| "dict_has_key _ k = False"

text \<open>
  The loop over the candidates. \<^verbatim>\<open>json.loads\<close> is the standard library's decoder,
  a parameter \<open>loads\<close> here; only its \<^verbatim>\<open>JSONDecodeError\<close> is caught, any other
  exception leaves the function.
\<close>

fun try_json_matches :: "(string \<Rightarrow> py_exn + json) \<Rightarrow> string list \<Rightarrow> py_exn + json option" where
  "try_json_matches loads [] = Inr None"
| "try_json_matches loads (potential_json # json_matches) =
     (case loads potential_json of
        Inr data \<Rightarrow>
          if dict_has_key data ''use_tool'' then Inr (Some data)
          else try_json_matches loads json_matches
      | Inl e \<Rightarrow>
          if exn_cls e = JSONDecodeError then try_json_matches loads json_matches
          else Inl e)"

definition extract_tool_call :: "(string \<Rightarrow> py_exn + json) \<Rightarrow> string \<Rightarrow> py_exn + json option" where
  "extract_tool_call loads text =
     (let json_matches = findall text;
          json_matches = (if json_matches = [] then [text] else json_matches)
      in try_json_matches loads json_matches)"

text \<open>
  The candidates the loop of \<open>extract_tool_call\<close> runs over, and what it does with
  one of them.
\<close>

definition json_candidates :: "string \<Rightarrow> string list" where
  "json_candidates text = (if findall text = [] then [text] else findall text)"

definition is_tool_call :: "(string \<Rightarrow> py_exn + json) \<Rightarrow> string \<Rightarrow> bool" where
  "is_tool_call loads c =
     (case loads c of Inr data \<Rightarrow> dict_has_key data ''use_tool'' | Inl e \<Rightarrow> False)"

definition skipped :: "(string \<Rightarrow> py_exn + json) \<Rightarrow> string \<Rightarrow> bool" where
  "skipped loads c =
     (case loads c of
        Inr data \<Rightarrow> \<not> dict_has_key data ''use_tool''
      | Inl e \<Rightarrow> exn_cls e = JSONDecodeError)"

text \<open>A decoder given by a table of documents; every other text is not JSON to it.\<close>

definition table_loads :: "(string \<times> json) list \<Rightarrow> string \<Rightarrow> py_exn + json" where
  "table_loads tab s =
     (case map_of tab s of
        Some v \<Rightarrow> Inr v
      | None \<Rightarrow> Inl (PyExn JSONDecodeError ''Expecting value''))"

text \<open>Sample documents and responses for the examples.\<close>

definition sample_documents :: "(string \<times> json) list" where
  "sample_documents =
     [(''{\"a\": 1}'', JObject [(''a'', JInt 1)]),
      (''{\"use_tool\": true}'', JObject [(''use_tool'', JBool True)])]"

definition two_blocks :: string where
  "two_blocks = ''```\<newline>{not json\<newline>```\<newline>```json\<newline>{\"a\": 1}\<newline>```\<newline>then\<newline>```json\<newline>{\"use_tool\": true}\<newline>```''"

definition plain_prose :: string where
  "plain_prose = ''The capital of France is Paris.''"

definition bare_then_fenced :: string where
  "bare_then_fenced = ''{\"use_tool\": true} ```json\<newline>{\"a\": 1}\<newline>```''"

definition bare_in_prose :: string where
  "bare_in_prose = ''Sure: {\"use_tool\": true}''"

section \<open>The router (assistant/router.py)\<close>

text \<open>
  A tool as the router sees it (tools/base.py): its name, description, parameter schema
  and \<^verbatim>\<open>execute\<close>, which takes the keyword arguments and returns a payload or raises.
\<close>

record BaseTool =
  tool_name :: string
  description :: string
  parameters :: json
  execute :: "(string \<times> json) list \<Rightarrow> py_exn + json"

definition to_dict :: "BaseTool \<Rightarrow> json" where
  "to_dict t =
     JObject [(''name'', JString (tool_name t)),
              (''description'', JString (description t)),
              (''parameters'', parameters t)]"

text \<open>
  A streaming model call either raises when it is made, or yields chunks, each with a
  \<^verbatim>\<open>delta.content\<close> that is a string or \<^verbatim>\<open>None\<close>, and then ends or raises.
\<close>

datatype llm_result = CallRaises py_exn | Stream "string option list" "py_exn option"

text \<open>
  What the router uses and this repository does not define: the model client, the
  standard library's JSON functions and \<^verbatim>\<open>traceback.format_exc\<close>, \<^verbatim>\<open>str\<close> of a value
  that is not a string, and the text of the two \<^verbatim>\<open>TypeError\<close>s the interpreter raises.
  The routing prompt (assistant/prompts.py) is a fixed text around the tool list; no
  property below depends on it, and it is a parameter as well.
\<close>

record env =
  stream_async :: "message list \<Rightarrow> llm_result"
  json_loads :: "string \<Rightarrow> py_exn + json"
  json_dumps :: "json \<Rightarrow> string"
  json_dumps_indent :: "json \<Rightarrow> string"
  format_exc :: "py_exn \<Rightarrow> string"
  py_str :: "json \<Rightarrow> string"
  get_system_prompt :: "json list \<Rightarrow> string"
  mapping_error :: "json \<Rightarrow> string"
  unhashable_error :: "json \<Rightarrow> string"

definition get_tool_response_prompt :: "env \<Rightarrow> string \<Rightarrow> json \<Rightarrow> string \<Rightarrow> string" where
  "get_tool_response_prompt env name tool_response user_query =
     ''The user asked: \"'' @ user_query @ ''\"\<newline>\<newline>You used the \"'' @ name
     @ ''\" tool, which returned the following information:\<newline>\<newline>''
     @ json_dumps_indent env tool_response
     @ ''\<newline>\<newline>Please format this information into a natural, helpful response that directly answers the user's question.\<newline>If there was an error in the tool response, explain what went wrong in a friendly manner and suggest alternatives if possible.\<newline>''"

text \<open>Truth of a value, \<^verbatim>\<open>dict.get\<close>, and a value inside an f-string.\<close>

fun truthy :: "json \<Rightarrow> bool" where
  "truthy JNull = False"
| "truthy (JBool b) = b"
| "truthy (JInt n) = (n \<noteq> 0)"
| "truthy (JFloat f) = (f \<noteq> Float 0)"
| "truthy (JString s) = (s \<noteq> [])"
| "truthy (JArray xs) = (xs \<noteq> [])"
| "truthy (JObject kvs) = (kvs \<noteq> [])"

fun dict_get :: "json \<Rightarrow> string \<Rightarrow> json \<Rightarrow> json" where
  "dict_get (JObject kvs) k dflt = (case map_of kvs k of Some v \<Rightarrow> v | None \<Rightarrow> dflt)"
| "dict_get _ k dflt = dflt"

definition fmt :: "env \<Rightarrow> json \<Rightarrow> string" where
  "fmt env v = (case v of JString s \<Rightarrow> s | _ \<Rightarrow> py_str env v)"

text \<open>
  \<^verbatim>\<open>self.tool_map\<close>: of two tools with the same name the later one stays.
  \<open>lookup_tool\<close> is \<^verbatim>\<open>tool_name in self.tool_map\<close> followed by
  \<^verbatim>\<open>self.tool_map[tool_name]\<close>: a list or a dict is not hashable and the test raises;
  any other value that is not a string is no key of the map.
\<close>

definition tool_map :: "BaseTool list \<Rightarrow> string \<Rightarrow> BaseTool option" where
  "tool_map tools = map_of (rev (map (\<lambda>t. (tool_name t, t)) tools))"

fun lookup_tool :: "env \<Rightarrow> BaseTool list \<Rightarrow> json \<Rightarrow> py_exn + BaseTool option" where
  "lookup_tool env tools (JString n) = Inr (tool_map tools n)"
| "lookup_tool env tools (JArray xs) = Inl (PyExn TypeError (unhashable_error env (JArray xs)))"
| "lookup_tool env tools (JObject kvs) = Inl (PyExn TypeError (unhashable_error env (JObject kvs)))"
| "lookup_tool env tools _ = Inr None"

text \<open>\<^verbatim>\<open>tool.execute(**tool_parameters)\<close>: the arguments must be a mapping.\<close>

fun call_execute :: "env \<Rightarrow> BaseTool \<Rightarrow> json \<Rightarrow> py_exn + json" where
  "call_execute env tool (JObject kvs) = execute tool kvs"
| "call_execute env tool v = Inl (PyExn TypeError (mapping_error env v))"

text \<open>
  One query leaves the ledger, the strings yielded to the caller in order, and the
  calls made to the model and to tools in order.
\<close>

datatype call =
    RoutingCall "message list" | ToolCall string json
  | ResultCall "message list" | FallbackCall "message list"

record router_state =
  memory :: ConversationMemory
  yielded :: "string list"
  calls :: "call list"

fun contents :: "string option list \<Rightarrow> string list" where
  "contents [] = []"
| "contents (None # cs) = contents cs"
| "contents (Some s # cs) = s # contents cs"

definition apostrophe :: string where
  "apostrophe = [CHR 0x27]"

text \<open>The messages of the general-knowledge call and the two error texts.\<close>

definition fallback_messages :: "string \<Rightarrow> message list" where
  "fallback_messages query =
     [\<lparr>role = ''system'',
       content = ''You are a helpful AI assistant. Answer the user's question based on your general knowledge.'',
       msg_tool_name = None\<rparr>,
      user_turn query]"

definition general_error_text :: "py_exn \<Rightarrow> string" where
  "general_error_text e =
     ''I encountered an error providing a general knowledge answer: '' @ exn_str e"

definition error_text :: "py_exn \<Rightarrow> string" where
  "error_text e = ''I encountered an error: '' @ exn_str e"

definition answer_with_llm :: "env \<Rightarrow> router_state \<Rightarrow> string \<Rightarrow> router_state" where
  "answer_with_llm env st query =
     (let msgs = fallback_messages query;
          st1 = st\<lparr>calls := calls st @ [FallbackCall msgs]\<rparr>
      in case stream_async env msgs of
           CallRaises e \<Rightarrow> st1\<lparr>yielded := yielded st1 @ [general_error_text e]\<rparr>
         | Stream chunks failure \<Rightarrow>
             let st2 = st1\<lparr>yielded := yielded st1 @ contents chunks\<rparr> in
             (case failure of
                Some e \<Rightarrow> st2\<lparr>yielded := yielded st2 @ [general_error_text e]\<rparr>
              | None \<Rightarrow>
                  st2\<lparr>memory := add_assistant_message (memory st2) (concat (contents chunks))\<rparr>))"

text \<open>
  The payload the router works with after \<^verbatim>\<open>execute\<close>: what the tool returned, or the
  error payload the handler at the call builds.
\<close>

definition run_tool :: "env \<Rightarrow> BaseTool \<Rightarrow> string \<Rightarrow> json \<Rightarrow> json" where
  "run_tool env tool name tool_parameters =
     (case call_execute env tool tool_parameters of
        Inr tool_response \<Rightarrow> tool_response
      | Inl e \<Rightarrow>
          JObject [(''error'', JString (''Error executing tool '' @ name @ '': '' @ exn_str e)),
                   (''details'', JString (format_exc env e))])"

text \<open>The branch of a registered tool; an exception that leaves it is returned.\<close>

definition result_messages :: "env \<Rightarrow> string \<Rightarrow> json \<Rightarrow> string \<Rightarrow> message list" where
  "result_messages env name tool_response query =
     [user_turn (get_tool_response_prompt env name tool_response query)]"

definition using_tool_text :: "string \<Rightarrow> string" where
  "using_tool_text name = ''I'll check that for you using '' @ name @ ''...\<newline>\<newline>''"

definition use_tool ::
  "env \<Rightarrow> router_state \<Rightarrow> BaseTool \<Rightarrow> string \<Rightarrow> json \<Rightarrow> string \<Rightarrow> py_exn option \<times> router_state" where
  "use_tool env st tool name tool_parameters query =
     (let st1 = st\<lparr>yielded := yielded st @ [using_tool_text name]\<rparr>;
          st2 = st1\<lparr>calls := calls st1 @ [ToolCall name tool_parameters]\<rparr>;
          tool_response = run_tool env tool name tool_parameters;
          st3 = st2\<lparr>memory := add_tool_message (json_dumps env) (memory st2) name tool_response\<rparr>;
          msgs = result_messages env name tool_response query;
          st4 = st3\<lparr>calls := calls st3 @ [ResultCall msgs]\<rparr>
      in case stream_async env msgs of
           CallRaises e \<Rightarrow> (Some e, st4)
         | Stream chunks failure \<Rightarrow>
             let st5 = st4\<lparr>yielded := yielded st4 @ contents chunks\<rparr> in
             (case failure of
                Some e \<Rightarrow> (Some e, st5)
              | None \<Rightarrow>
                  (None, st5\<lparr>memory := add_assistant_message (memory st5) (concat (contents chunks))\<rparr>)))"

definition unavailable_notice :: "env \<Rightarrow> json \<Rightarrow> string" where
  "unavailable_notice env v =
     ''I attempted to use a tool called '' @ apostrophe @ fmt env v @ apostrophe
     @ '', but it's not available. Let me answer based on what I know.''"

definition dispatch ::
  "env \<Rightarrow> BaseTool list \<Rightarrow> router_state \<Rightarrow> json \<Rightarrow> string \<Rightarrow> py_exn option \<times> router_state" where
  "dispatch env tools st tool_call query =
     (let name = dict_get tool_call ''tool_name'' JNull;
          tool_parameters = dict_get tool_call ''tool_parameters'' (JObject [])
      in case lookup_tool env tools name of
           Inl e \<Rightarrow> (Some e, st)
         | Inr (Some tool) \<Rightarrow> use_tool env st tool (fmt env name) tool_parameters query
         | Inr None \<Rightarrow>
             (None, answer_with_llm env
                      (st\<lparr>yielded := yielded st @ [unavailable_notice env name]\<rparr>) query))"

definition direct_answer :: "router_state \<Rightarrow> string \<Rightarrow> py_exn option \<times> router_state" where
  "direct_answer st full_response =
     (None, st\<lparr>yielded := yielded st @ [full_response],
               memory := add_assistant_message (memory st) full_response\<rparr>)"

text \<open>The body of the \<^verbatim>\<open>try\<close> in \<open>process_query\<close>.\<close>

definition process_query_try ::
  "env \<Rightarrow> BaseTool list \<Rightarrow> router_state \<Rightarrow> string \<Rightarrow> message list \<Rightarrow> py_exn option \<times> router_state" where
  "process_query_try env tools st query msgs =
     (case stream_async env msgs of
        CallRaises e \<Rightarrow> (Some e, st)
      | Stream chunks failure \<Rightarrow>
          (case failure of
             Some e \<Rightarrow> (Some e, st)
           | None \<Rightarrow>
               let full_response = concat (contents chunks) in
               (case extract_tool_call (json_loads env) full_response of
                  Inl e \<Rightarrow> (Some e, st)
                | Inr None \<Rightarrow> direct_answer st full_response
                | Inr (Some tool_call) \<Rightarrow>
                    if truthy tool_call \<and> truthy (dict_get tool_call ''use_tool'' (JBool False))
                    then dispatch env tools st tool_call query
                    else direct_answer st full_response)))"

definition routing_messages ::
  "env \<Rightarrow> BaseTool list \<Rightarrow> ConversationMemory \<Rightarrow> string \<Rightarrow> message list" where
  "routing_messages env tools mem query =
     [\<lparr>role = ''system'', content = get_system_prompt env (map to_dict tools),
       msg_tool_name = None\<rparr>]
     @ [\<lparr>role = role msg, content = content msg, msg_tool_name = None\<rparr>.
          msg \<leftarrow> butlast (get_messages mem), role msg \<in> set [''user'', ''assistant'']]
     @ [user_turn query]"

text \<open>The handler of the \<^verbatim>\<open>try\<close>: an exception becomes one more yielded string.\<close>

definition handle_error :: "py_exn option \<times> router_state \<Rightarrow> router_state" where
  "handle_error r =
     (case r of
        (None, st) \<Rightarrow> st
      | (Some e, st) \<Rightarrow> st\<lparr>yielded := yielded st @ [error_text e]\<rparr>)"

definition process_query ::
  "env \<Rightarrow> BaseTool list \<Rightarrow> ConversationMemory \<Rightarrow> string \<Rightarrow> router_state" where
  "process_query env tools mem query =
     (let mem1 = add_user_message mem query;
          msgs = routing_messages env tools mem1 query;
          st0 = \<lparr>memory = mem1, yielded = [], calls = [RoutingCall msgs]\<rparr>
      in handle_error (process_query_try env tools st0 query msgs))"

text \<open>The calls to the model among the calls of a query, and whether one failed.\<close>

fun is_model_call :: "call \<Rightarrow> bool" where
  "is_model_call (ToolCall name tool_parameters) = False"
| "is_model_call _ = True"

fun failure_of :: "llm_result \<Rightarrow> py_exn option" where
  "failure_of (CallRaises e) = Some e"
| "failure_of (Stream chunks failure) = failure"

fun call_failure :: "env \<Rightarrow> call \<Rightarrow> py_exn option" where
  "call_failure env (RoutingCall msgs) = failure_of (stream_async env msgs)"
| "call_failure env (ResultCall msgs) = failure_of (stream_async env msgs)"
| "call_failure env (FallbackCall msgs) = failure_of (stream_async env msgs)"
| "call_failure env (ToolCall name tool_parameters) = None"

text \<open>
  Names for the situations the properties speak of: the reply to the routing call of a
  query, the text accumulated from a reply, the state when the routing call is made, the
  tool-call intent the router acts on (an extracted dict whose \<^verbatim>\<open>use_tool\<close> is true),
  and a reply that is a plain answer.
\<close>

definition routing_reply :: "env \<Rightarrow> BaseTool list \<Rightarrow> ConversationMemory \<Rightarrow> string \<Rightarrow> llm_result" where
  "routing_reply env tools mem query =
     stream_async env (routing_messages env tools (add_user_message mem query) query)"

fun chunks_of :: "llm_result \<Rightarrow> string option list" where
  "chunks_of (CallRaises e) = []"
| "chunks_of (Stream chunks failure) = chunks"

definition full_text :: "llm_result \<Rightarrow> string" where
  "full_text r = concat (contents (chunks_of r))"

definition start_state :: "env \<Rightarrow> BaseTool list \<Rightarrow> ConversationMemory \<Rightarrow> string \<Rightarrow> router_state" where
  "start_state env tools mem query =
     \<lparr>memory = add_user_message mem query, yielded = [],
      calls = [RoutingCall (routing_messages env tools (add_user_message mem query) query)]\<rparr>"

definition intent :: "env \<Rightarrow> BaseTool list \<Rightarrow> ConversationMemory \<Rightarrow> string \<Rightarrow> json option" where
  "intent env tools mem query =
     (if failure_of (routing_reply env tools mem query) = None
      then (case extract_tool_call (json_loads env) (full_text (routing_reply env tools mem query)) of
              Inr (Some d) \<Rightarrow>
                if truthy d \<and> truthy (dict_get d ''use_tool'' (JBool False)) then Some d else None
            | _ \<Rightarrow> None)
      else None)"

definition plain_reply :: "env \<Rightarrow> BaseTool list \<Rightarrow> ConversationMemory \<Rightarrow> string \<Rightarrow> bool" where
  "plain_reply env tools mem query =
     (failure_of (routing_reply env tools mem query) = None
      \<and> extract_tool_call (json_loads env) (full_text (routing_reply env tools mem query)) = Inr None)"

text \<open>
  An environment for the examples: a model that answers the routing call with \<open>first\<close>
  and any other call with \<open>second\<close>, decoders and serialisers given by tables, and two
  tools named \<^verbatim>\<open>get_weather\<close>, one that returns a payload and one whose \<^verbatim>\<open>execute\<close>
  raises.
\<close>

definition sample_prompt :: string where
  "sample_prompt = ''You are an intelligent Q&A Assistant''"

definition scripted_llm :: "llm_result \<Rightarrow> llm_result \<Rightarrow> message list \<Rightarrow> llm_result" where
  "scripted_llm first second msgs =
     (case msgs of
        [] \<Rightarrow> second
      | m # ms \<Rightarrow> if role m = ''system'' \<and> content m = sample_prompt then first else second)"

definition weather_request :: string where
  "weather_request = ''```json\<newline>{\"use_tool\": true, \"tool_name\": \"get_weather\", \"tool_parameters\": {\"location\": \"London\"}}\<newline>```''"

definition weather_intent :: json where
  "weather_intent =
     JObject [(''use_tool'', JBool True), (''tool_name'', JString ''get_weather''),
              (''tool_parameters'', JObject [(''location'', JString ''London'')])]"

definition unicorn_request :: string where
  "unicorn_request = ''{\"use_tool\": true, \"tool_name\": \"get_unicorn_price\", \"tool_parameters\": {}}''"

definition unicorn_intent :: json where
  "unicorn_intent =
     JObject [(''use_tool'', JBool True), (''tool_name'', JString ''get_unicorn_price''),
              (''tool_parameters'', JObject [])]"

definition weather_payload :: json where
  "weather_payload = JObject [(''temperature'', JString ''15C'')]"

definition refused :: py_exn where
  "refused = PyExn OtherException ''Connection refused''"

definition refused_payload :: json where
  "refused_payload =
     JObject [(''error'', JString ''Error executing tool get_weather: Connection refused''),
              (''details'', JString ''Traceback (most recent call last):'')]"

definition table_dumps :: "(json \<times> string) list \<Rightarrow> json \<Rightarrow> string" where
  "table_dumps tab v = (case map_of tab v of Some s \<Rightarrow> s | None \<Rightarrow> ''null'')"

definition sample_env :: "(message list \<Rightarrow> llm_result) \<Rightarrow> env" where
  "sample_env llm =
     \<lparr>stream_async = llm,
      json_loads = table_loads
        [(''{\"use_tool\": true, \"tool_name\": \"get_weather\", \"tool_parameters\": {\"location\": \"London\"}}'',
          weather_intent),
         (unicorn_request, unicorn_intent)],
      json_dumps = table_dumps
        [(weather_payload, ''{\"temperature\": \"15C\"}''),
         (refused_payload,
          ''{\"error\": \"Error executing tool get_weather: Connection refused\", \"details\": \"Traceback (most recent call last):\"}'')],
      json_dumps_indent = table_dumps
        [(weather_payload, ''{\<newline>  \"temperature\": \"15C\"\<newline>}''),
         (refused_payload,
          ''{\<newline>  \"error\": \"Error executing tool get_weather: Connection refused\",\<newline>  \"details\": \"Traceback (most recent call last):\"\<newline>}'')],
      format_exc = (\<lambda>e. ''Traceback (most recent call last):''),
      py_str = (\<lambda>v. ''None''),
      get_system_prompt = (\<lambda>ts. sample_prompt),
      mapping_error = (\<lambda>v. ''argument after ** must be a mapping''),
      unhashable_error = (\<lambda>v. ''unhashable type'')\<rparr>"

definition working_tool :: BaseTool where
  "working_tool =
     \<lparr>tool_name = ''get_weather'', description = ''Get current weather information for a specified location'',
      parameters = JObject [], execute = (\<lambda>kwargs. Inr weather_payload)\<rparr>"

definition raising_tool :: BaseTool where
  "raising_tool =
     \<lparr>tool_name = ''get_weather'', description = ''Get current weather information for a specified location'',
      parameters = JObject [],
      execute = (\<lambda>kwargs. Inl refused)\<rparr>"

definition weather_query :: string where
  "weather_query = ''What is the weather in London?''"

definition unicorn_query :: string where
  "unicorn_query = ''What is the price of a unicorn?''"

definition weather_first :: llm_result where
  "weather_first = Stream [Some weather_request] None"

definition unicorn_first :: llm_result where
  "unicorn_first = Stream [Some ''{\"use_tool\": true, \"tool_name\": '', None,
                           Some ''\"get_unicorn_price\", \"tool_parameters\": {}}''] None"

definition answer_second :: llm_result where
  "answer_second = Stream [Some ''It is '', None, Some ''a fine day.''] None"

definition regret_second :: llm_result where
  "regret_second = Stream [Some ''I could not reach '', Some ''the weather service.''] None"

definition unavailable :: py_exn where
  "unavailable = PyExn OtherException ''Service unavailable''"

section \<open>The tools (tools/weather.py, tools/stock.py)\<close>

text \<open>
  What a tool uses and this repository does not define: the HTTP request, which raises
  or gives a response with a status, a body text and a decoded body (reading either may
  raise); \<^verbatim>\<open>float\<close>, \<^verbatim>\<open>int\<close>, \<^verbatim>\<open>str.upper\<close> and \<^verbatim>\<open>str\<close> of a value; the clock;
  \<^verbatim>\<open>json.dumps\<close> and \<^verbatim>\<open>traceback.format_exc\<close>; and the text of the exceptions the
  interpreter raises for an operation on a value of the wrong type.
\<close>

datatype http_result =
    RequestRaises py_exn
  | Response int "py_exn + string" "py_exn + json"

record tool_env =
  http_get :: "string \<Rightarrow> (string \<times> json) list \<Rightarrow> http_result"
  to_float :: "json \<Rightarrow> py_exn + json"
  to_int :: "json \<Rightarrow> py_exn + json"
  str_upper :: "string \<Rightarrow> string"
  value_str :: "json \<Rightarrow> string"
  now_isoformat :: string
  dumps_quote :: "json \<Rightarrow> string"
  traceback_text :: "py_exn \<Rightarrow> string"
  runtime_text :: "exn_class \<Rightarrow> json \<Rightarrow> string"

text \<open>Sequencing of steps that may raise.\<close>

definition and_then :: "py_exn + 'a \<Rightarrow> ('a \<Rightarrow> py_exn + 'b) \<Rightarrow> py_exn + 'b" where
  "and_then r f = (case r of Inl e \<Rightarrow> Inl e | Inr v \<Rightarrow> f v)"

text \<open>
  \<^verbatim>\<open>obj[key]\<close> for a string key, \<^verbatim>\<open>obj[0]\<close>, \<^verbatim>\<open>obj.get(key, default)\<close> and
  \<^verbatim>\<open>key in obj\<close> on a decoded value. A dict here has string keys only.
\<close>

fun subscript :: "tool_env \<Rightarrow> json \<Rightarrow> string \<Rightarrow> py_exn + json" where
  "subscript tenv (JObject kvs) k =
     (case map_of kvs k of
        Some v \<Rightarrow> Inr v
      | None \<Rightarrow> Inl (PyExn KeyError (apostrophe @ k @ apostrophe)))"
| "subscript tenv v k = Inl (PyExn TypeError (runtime_text tenv TypeError v))"

fun subscript_zero :: "tool_env \<Rightarrow> json \<Rightarrow> py_exn + json" where
  "subscript_zero tenv (JArray (x # xs)) = Inr x"
| "subscript_zero tenv (JArray []) = Inl (PyExn IndexError ''list index out of range'')"
| "subscript_zero tenv (JString (c # cs)) = Inr (JString [c])"
| "subscript_zero tenv (JString []) = Inl (PyExn IndexError ''string index out of range'')"
| "subscript_zero tenv (JObject kvs) = Inl (PyExn KeyError ''0'')"
| "subscript_zero tenv v = Inl (PyExn TypeError (runtime_text tenv TypeError v))"

fun get_method :: "tool_env \<Rightarrow> json \<Rightarrow> string \<Rightarrow> json \<Rightarrow> py_exn + json" where
  "get_method tenv (JObject kvs) k dflt =
     Inr (case map_of kvs k of Some v \<Rightarrow> v | None \<Rightarrow> dflt)"
| "get_method tenv v k dflt = Inl (PyExn AttributeError (runtime_text tenv AttributeError v))"

fun is_substring :: "string \<Rightarrow> string \<Rightarrow> bool" where
  "is_substring k [] = (k = [])"
| "is_substring k (c # s) = (take (length k) (c # s) = k \<or> is_substring k s)"

fun contains :: "tool_env \<Rightarrow> json \<Rightarrow> string \<Rightarrow> py_exn + bool" where
  "contains tenv (JObject kvs) k = Inr (k \<in> set (map fst kvs))"
| "contains tenv (JArray xs) k = Inr (JString k \<in> set xs)"
| "contains tenv (JString s) k = Inr (is_substring k s)"
| "contains tenv v k = Inl (PyExn TypeError (runtime_text tenv TypeError v))"

definition tfmt :: "tool_env \<Rightarrow> json \<Rightarrow> string" where
  "tfmt tenv v = (case v of JString s \<Rightarrow> s | _ \<Rightarrow> value_str tenv v)"

definition kw_get :: "(string \<times> json) list \<Rightarrow> string \<Rightarrow> json \<Rightarrow> json" where
  "kw_get kwargs k dflt = (case map_of kwargs k of Some v \<Rightarrow> v | None \<Rightarrow> dflt)"

text \<open>The API key is a string or \<^verbatim>\<open>None\<close>.\<close>

definition no_key :: "string option \<Rightarrow> bool" where
  "no_key api_key = (case api_key of None \<Rightarrow> True | Some k \<Rightarrow> k = [])"

definition key_value :: "string option \<Rightarrow> json" where
  "key_value api_key = (case api_key of None \<Rightarrow> JNull | Some k \<Rightarrow> JString k)"

definition failure_payload :: "string \<Rightarrow> string \<Rightarrow> json" where
  "failure_payload error_msg details_text =
     JObject [(''error'', JString error_msg), (''details'', JString details_text)]"

subsection \<open>WeatherTool\<close>

definition temp_unit :: "json \<Rightarrow> string" where
  "temp_unit units =
     (if units = JString ''metric'' then [CHR 0xB0] @ ''C''
      else if units = JString ''imperial'' then [CHR 0xB0] @ ''F'' else ''K'')"

definition wind_unit :: "json \<Rightarrow> string" where
  "wind_unit units =
     (if units = JString ''metric'' then ''m/s''
      else if units = JString ''imperial'' then ''mph'' else ''m/s'')"

text \<open>The success payload, its entries evaluated in the order of the dict display.\<close>

definition format_weather :: "tool_env \<Rightarrow> json \<Rightarrow> json \<Rightarrow> py_exn + json" where
  "format_weather tenv units data =
     and_then (subscript tenv data ''name'') (\<lambda>name.
     and_then (get_method tenv data ''sys'' (JObject [])) (\<lambda>sys.
     and_then (get_method tenv sys ''country'' (JString [])) (\<lambda>country.
     and_then (and_then (subscript tenv data ''main'') (\<lambda>m. subscript tenv m ''temp'')) (\<lambda>temp.
     and_then (and_then (subscript tenv data ''main'') (\<lambda>m. subscript tenv m ''feels_like'')) (\<lambda>feels_like.
     and_then (and_then (and_then (subscript tenv data ''weather'') (subscript_zero tenv))
                 (\<lambda>w. subscript tenv w ''main'')) (\<lambda>condition.
     and_then (and_then (and_then (subscript tenv data ''weather'') (subscript_zero tenv))
                 (\<lambda>w. subscript tenv w ''description'')) (\<lambda>desc.
     and_then (and_then (subscript tenv data ''main'') (\<lambda>m. subscript tenv m ''humidity'')) (\<lambda>humidity.
     and_then (and_then (subscript tenv data ''wind'') (\<lambda>w. subscript tenv w ''speed'')) (\<lambda>speed.
     and_then (and_then (subscript tenv data ''main'') (\<lambda>m. subscript tenv m ''pressure'')) (\<lambda>pressure.
     and_then (subscript tenv data ''dt'') (\<lambda>dt.
       Inr (JObject
         [(''location'', JString (tfmt tenv name @ '', '' @ tfmt tenv country)),
          (''temperature'', JString (tfmt tenv temp @ temp_unit units)),
          (''feels_like'', JString (tfmt tenv feels_like @ temp_unit units)),
          (''condition'', condition),
          (''description'', desc),
          (''humidity'', JString (tfmt tenv humidity @ ''%'')),
          (''wind_speed'', JString (tfmt tenv speed @ '' '' @ wind_unit units)),
          (''pressure'', JString (tfmt tenv pressure @ '' hPa'')),
          (''timestamp'', dt)]))))))))))))"

text \<open>
  The body of the \<^verbatim>\<open>try\<close>: a returned payload, or the exception that reaches the
  handlers.
\<close>

definition weather_try :: "tool_env \<Rightarrow> string option \<Rightarrow> json \<Rightarrow> json \<Rightarrow> py_exn + json" where
  "weather_try tenv api_key location units =
     (case http_get tenv ''https://api.openweathermap.org/data/2.5/weather''
             [(''q'', location), (''units'', units), (''appid'', key_value api_key)] of
        RequestRaises e \<Rightarrow> Inl e
      | Response status body_text body_json \<Rightarrow>
          if status \<noteq> 200
          then and_then body_text (\<lambda>error_data.
                 Inr (failure_payload (''Weather API error: '' @ tfmt tenv (JInt status)) error_data))
          else and_then body_json (format_weather tenv units))"

definition weather_handlers :: "tool_env \<Rightarrow> py_exn \<Rightarrow> json" where
  "weather_handlers tenv e =
     (if exn_cls e = ClientError
      then failure_payload (''Network error connecting to weather API: '' @ exn_str e)
             (traceback_text tenv e)
      else if exn_cls e = KeyError
      then failure_payload
             (''Unexpected data format from weather API (missing key: '' @ exn_str e @ '')'')
             (traceback_text tenv e)
      else failure_payload (''Error fetching weather data: '' @ exn_str e) (traceback_text tenv e))"

definition weather_execute ::
  "tool_env \<Rightarrow> string option \<Rightarrow> (string \<times> json) list \<Rightarrow> py_exn + json" where
  "weather_execute tenv api_key kwargs =
     (let location = kw_get kwargs ''location'' JNull;
          units = kw_get kwargs ''units'' (JString ''metric'')
      in if \<not> truthy location then Inl (PyExn ValueError ''Location is required'')
         else if no_key api_key
         then Inr (failure_payload ''Weather API key is missing''
                     ''Please provide a valid OpenWeatherMap API key in the configuration'')
         else
           let units = (if units \<in> set [JString ''metric'', JString ''imperial'', JString ''standard'']
                        then units else JString ''metric'')
           in case weather_try tenv api_key location units of
                Inr payload \<Rightarrow> Inr payload
              | Inl e \<Rightarrow> Inr (weather_handlers tenv e))"

definition WeatherTool :: "tool_env \<Rightarrow> string option \<Rightarrow> BaseTool" where
  "WeatherTool tenv api_key =
     \<lparr>tool_name = ''get_weather'',
      description = ''Get current weather information for a specified location'',
      parameters = JObject
        [(''location'', JObject
            [(''type'', JString ''string''),
             (''description'', JString (''The city name or location to get weather for (e.g., ''
                @ apostrophe @ ''New York'' @ apostrophe @ '', '' @ apostrophe @ ''London, UK''
                @ apostrophe @ '')'')),
             (''required'', JBool True)]),
         (''units'', JObject
            [(''type'', JString ''string''),
             (''description'', JString (''Units of measurement. Options: ''
                @ apostrophe @ ''metric'' @ apostrophe @ '' (Celsius), ''
                @ apostrophe @ ''imperial'' @ apostrophe @ '' (Fahrenheit), ''
                @ apostrophe @ ''standard'' @ apostrophe @ '' (Kelvin)'')),
             (''required'', JBool False)])],
      execute = weather_execute tenv api_key\<rparr>"

subsection \<open>StockTool\<close>

definition strip :: "string \<Rightarrow> string" where
  "strip s = rev (dropWhile is_space (rev (dropWhile is_space s)))"

text \<open>The inner \<^verbatim>\<open>try\<close>: the conversions, in the order of the dict display.\<close>

definition format_quote ::
  "tool_env \<Rightarrow> string \<Rightarrow> json \<Rightarrow> py_exn + (string \<times> json) list" where
  "format_quote tenv symbol quote =
     and_then (get_method tenv quote ''01. symbol'' (JString symbol)) (\<lambda>sym.
     and_then (and_then (get_method tenv quote ''05. price'' (JInt 0)) (to_float tenv)) (\<lambda>price.
     and_then (and_then (get_method tenv quote ''09. change'' (JInt 0)) (to_float tenv)) (\<lambda>change.
     and_then (get_method tenv quote ''10. change percent'' (JString ''0%'')) (\<lambda>change_percent.
     and_then (and_then (get_method tenv quote ''06. volume'' (JInt 0)) (to_int tenv)) (\<lambda>volume.
     and_then (get_method tenv quote ''07. latest trading day'' (JString ''N/A'')) (\<lambda>day.
     and_then (and_then (get_method tenv quote ''08. previous close'' (JInt 0)) (to_float tenv)) (\<lambda>previous_close.
       Inr [(''symbol'', sym), (''price'', price), (''change'', change),
            (''change_percent'', change_percent), (''volume'', volume),
            (''latest_trading_day'', day), (''previous_close'', previous_close)])))))))"

definition stock_quote :: "tool_env \<Rightarrow> string \<Rightarrow> json \<Rightarrow> py_exn + json" where
  "stock_quote tenv symbol data =
     and_then (contains tenv data ''Global Quote'') (\<lambda>present.
     and_then (if present then subscript tenv data ''Global Quote'' else Inr JNull) (\<lambda>quote.
       if \<not> present \<or> \<not> truthy quote
       then Inr (failure_payload (''No data found for symbol: '' @ symbol)
                   ''The requested stock symbol may be invalid or not available'')
       else
         (case format_quote tenv symbol quote of
            Inr formatted_response \<Rightarrow>
              Inr (JObject (formatted_response @ [(''fetched_at'', JString (now_isoformat tenv))]))
          | Inl e \<Rightarrow>
              if exn_cls e \<in> set [ValueError, JSONDecodeError, TypeError]
              then Inr (failure_payload (''Error parsing stock data: '' @ exn_str e)
                          (''Raw data: '' @ dumps_quote tenv quote))
              else Inl e)))"

definition stock_try :: "tool_env \<Rightarrow> string option \<Rightarrow> string \<Rightarrow> py_exn + json" where
  "stock_try tenv api_key symbol =
     (case http_get tenv ''https://www.alphavantage.co/query''
             [(''function'', JString ''GLOBAL_QUOTE''), (''symbol'', JString symbol),
              (''apikey'', key_value api_key)] of
        RequestRaises e \<Rightarrow> Inl e
      | Response status body_text body_json \<Rightarrow>
          if status \<noteq> 200
          then and_then body_text (\<lambda>error_data.
                 Inr (failure_payload (''Stock API error: '' @ tfmt tenv (JInt status)) error_data))
          else and_then body_json (stock_quote tenv symbol))"

definition stock_handlers :: "tool_env \<Rightarrow> py_exn \<Rightarrow> json" where
  "stock_handlers tenv e =
     (if exn_cls e = ClientError
      then failure_payload (''Network error connecting to stock API: '' @ exn_str e)
             (traceback_text tenv e)
      else failure_payload (''Error fetching stock data: '' @ exn_str e) (traceback_text tenv e))"

definition stock_execute ::
  "tool_env \<Rightarrow> string option \<Rightarrow> (string \<times> json) list \<Rightarrow> py_exn + json" where
  "stock_execute tenv api_key kwargs =
     (let symbol = kw_get kwargs ''symbol'' JNull
      in if \<not> truthy symbol then Inl (PyExn ValueError ''Stock symbol is required'')
         else if no_key api_key
         then Inr (failure_payload ''Alpha Vantage API key is missing''
                     ''Please provide a valid Alpha Vantage API key in the configuration'')
         else
           (case symbol of
              JString s \<Rightarrow>
                (case stock_try tenv api_key (str_upper tenv (strip s)) of
                   Inr payload \<Rightarrow> Inr payload
                 | Inl e \<Rightarrow> Inr (stock_handlers tenv e))
            | _ \<Rightarrow> Inl (PyExn AttributeError (runtime_text tenv AttributeError symbol))))"

definition StockTool :: "tool_env \<Rightarrow> string option \<Rightarrow> BaseTool" where
  "StockTool tenv api_key =
     \<lparr>tool_name = ''get_stock_price'',
      description = ''Get current stock price information for a specified ticker symbol'',
      parameters = JObject
        [(''symbol'', JObject
            [(''type'', JString ''string''),
             (''description'', JString (''The stock ticker symbol (e.g., ''
                @ apostrophe @ ''AAPL'' @ apostrophe @ '' for Apple, ''
                @ apostrophe @ ''MSFT'' @ apostrophe @ '' for Microsoft)'')),
             (''required'', JBool True)])],
      execute = stock_execute tenv api_key\<rparr>"

text \<open>
  A failure payload has the keys \<^verbatim>\<open>error\<close> and \<^verbatim>\<open>details\<close>. The units a weather
  request is made with, and the responses to the requests of the two tools.
\<close>

definition units_of :: "(string \<times> json) list \<Rightarrow> json" where
  "units_of kwargs =
     (if kw_get kwargs ''units'' (JString ''metric'')
           \<in> set [JString ''metric'', JString ''imperial'', JString ''standard'']
      then kw_get kwargs ''units'' (JString ''metric'') else JString ''metric'')"

definition weather_response :: "tool_env \<Rightarrow> string option \<Rightarrow> (string \<times> json) list \<Rightarrow> http_result" where
  "weather_response tenv api_key kwargs =
     http_get tenv ''https://api.openweathermap.org/data/2.5/weather''
       [(''q'', kw_get kwargs ''location'' JNull), (''units'', units_of kwargs),
        (''appid'', key_value api_key)]"

definition stock_response :: "tool_env \<Rightarrow> string option \<Rightarrow> string \<Rightarrow> http_result" where
  "stock_response tenv api_key s =
     http_get tenv ''https://www.alphavantage.co/query''
       [(''function'', JString ''GLOBAL_QUOTE''), (''symbol'', JString (str_upper tenv (strip s))),
        (''apikey'', key_value api_key)]"

text \<open>An environment for the examples: the network is down.\<close>

definition is_failure_payload :: "json \<Rightarrow> bool" where
  "is_failure_payload r = (dict_has_key r ''error'' \<and> dict_has_key r ''details'')"

definition offline_env :: tool_env where
  "offline_env =
     \<lparr>http_get = (\<lambda>url params. RequestRaises (PyExn ClientError ''Cannot connect to host'')),
      to_float = (\<lambda>v. Inl (PyExn TypeError ''float() argument must be a string or a real number'')),
      to_int = (\<lambda>v. Inl (PyExn TypeError ''int() argument must be a string or a real number'')),
      str_upper = (\<lambda>s. s),
      value_str = (\<lambda>v. ''None''),
      now_isoformat = ''2025-01-01T00:00:00'',
      dumps_quote = (\<lambda>v. ''null''),
      traceback_text = (\<lambda>e. ''Traceback (most recent call last):''),
      runtime_text = (\<lambda>c v. ''unsupported operand'')\<rparr>"

section \<open>Retention\<close>

lemma turn_of_role: "role (turn_of dumps a) \<noteq> ''system''"
  by (cases a) (simp_all add: user_turn_def assistant_turn_def tool_turn_def)

lemma append_turn_eq:
  "append_turn dumps m a = truncate_history (m\<lparr>messages := messages m @ [turn_of dumps a]\<rparr>)"
  by (cases a) (simp_all add: add_user_message_def add_assistant_message_def add_tool_message_def)

lemma truncate_max_turns: "max_turns (truncate_history m) = max_turns m"
  by (simp add: truncate_history_def Let_def)

lemma truncate_unpinned:
  assumes "0 \<le> max_turns m" and "messages m = xs" and "\<forall>x \<in> set xs. role x \<noteq> ''system''"
  shows "messages (truncate_history m) = drop (length xs - nat (2 * max_turns m)) xs"
proof (cases "int (length xs) \<le> max_turns m * 2")
  case True
  then have "length xs - nat (2 * max_turns m) = 0" by linarith
  with True assms show ?thesis by (simp add: truncate_history_def)
next
  case False
  then have ne: "xs \<noteq> []" using assms(1) by auto
  then have "role (hd xs) \<noteq> ''system''" using assms(3) by (simp add: hd_in_set)
  moreover have "nat (int (length xs) - max_turns m * 2) = length xs - nat (2 * max_turns m)"
    using assms(1) by linarith
  ultimately show ?thesis
    using False assms(1,2) by (simp add: truncate_history_def slice_to_def slice_from_def)
qed

lemma truncate_history_unfold:
  assumes "\<not> int (length (messages m)) \<le> max_turns m * 2"
    and "hs = (messages m \<noteq> [] \<and> role (hd (messages m)) = ''system'')"
    and "n = int (length (messages m)) - (max_turns m * 2) - (if hs then 1 else 0)"
  shows "truncate_history m =
           m\<lparr>messages := slice_to (messages m) (if hs then 1 else 0)
                           @ slice_from (messages m) ((if hs then 1 else 0) + n)\<rparr>"
  using assms by (simp add: truncate_history_def Let_def)

lemma truncate_pinned:
  assumes "0 \<le> max_turns m" and "messages m = s # xs" and "role s = ''system''"
  shows "messages (truncate_history m) = s # drop (length xs - nat (2 * max_turns m)) xs"
proof (cases "int (length (messages m)) \<le> max_turns m * 2")
  case True
  then have "length xs - nat (2 * max_turns m) = 0" using assms(2) by simp
  with True assms show ?thesis by (simp add: truncate_history_def)
next
  case False
  define k where "k = length xs - nat (2 * max_turns m)"
  have n: "int k = int (length (messages m)) - (max_turns m * 2) - (if True then 1 else 0)"
    using False assms(1,2) unfolding k_def by simp
  have hs: "True = (messages m \<noteq> [] \<and> role (hd (messages m)) = ''system'')"
    using assms(2,3) by simp
  have "nat (1 + int k) = Suc k" by simp
  then have "slice_from (s # xs) (1 + int k) = drop k xs"
    by (simp add: slice_from_def)
  moreover have "slice_to (s # xs) 1 = [s]" by (simp add: slice_to_def)
  ultimately show ?thesis
    using truncate_history_unfold [OF False hs n] assms(2) by (simp add: k_def)
qed

lemma truncate_kept:
  assumes "0 \<le> max_turns m" and "messages m = pre @ xs" and "pinned pre"
    and "\<forall>x \<in> set xs. role x \<noteq> ''system''"
  shows "messages (truncate_history m) = pre @ drop (length xs - nat (2 * max_turns m)) xs"
proof (cases pre)
  case Nil
  with assms show ?thesis using truncate_unpinned [of m xs] by simp
next
  case (Cons s rest)
  with assms(3) have "rest = []" and "role s = ''system''"
    by (auto simp: pinned_def split: list.splits)
  with Cons assms show ?thesis using truncate_pinned [of m s xs] by simp
qed

lemma drop_snoc_window:
  "drop (length (drop (length xs - c) xs @ [t]) - c) (drop (length xs - c) xs @ [t])
     = drop (Suc (length xs) - c) (xs @ [t])"
proof (cases "length xs < c")
  case True
  then show ?thesis by simp
next
  case False
  then have "length (drop (length xs - c) xs @ [t]) - c = 1" by simp
  moreover have "Suc (length xs) - c = Suc (length xs - c)" using False by simp
  ultimately show ?thesis using False by (cases c) (simp_all add: drop_Suc drop_tl)
qed

lemma appends_kept:
  assumes "0 \<le> max_turns m" and "messages m = pre" and "pinned pre"
  shows "max_turns (foldl (append_turn dumps) m ops) = max_turns m \<and>
         messages (foldl (append_turn dumps) m ops)
           = pre @ drop (length ops - nat (2 * max_turns m)) (map (turn_of dumps) ops)"
proof (induction ops rule: rev_induct)
  case Nil
  with assms show ?case by simp
next
  case (snoc a ops)
  let ?m = "foldl (append_turn dumps) m ops"
  let ?c = "nat (2 * max_turns m)"
  let ?ts = "map (turn_of dumps) ops"
  let ?kept = "drop (length ops - ?c) ?ts"
  let ?m' = "?m\<lparr>messages := messages ?m @ [turn_of dumps a]\<rparr>"
  from snoc have mt: "max_turns ?m = max_turns m"
    and ms: "messages ?m = pre @ ?kept" by simp_all
  have roles: "\<forall>x \<in> set (?kept @ [turn_of dumps a]). role x \<noteq> ''system''"
    by (auto simp: turn_of_role dest!: in_set_dropD)
  have step: "foldl (append_turn dumps) m (ops @ [a]) = truncate_history ?m'"
    unfolding foldl_append foldl.simps by (rule append_turn_eq)
  have "messages (truncate_history ?m')
          = pre @ drop (length (?kept @ [turn_of dumps a]) - nat (2 * max_turns ?m'))
                       (?kept @ [turn_of dumps a])"
    by (rule truncate_kept) (use assms mt ms roles in simp_all)
  also have "nat (2 * max_turns ?m') = ?c" using mt by simp
  also have "drop (length (?kept @ [turn_of dumps a]) - ?c) (?kept @ [turn_of dumps a])
               = drop (Suc (length ?ts) - ?c) (?ts @ [turn_of dumps a])"
    using drop_snoc_window [of ?ts ?c "turn_of dumps a"] by simp
  finally have "messages (truncate_history ?m')
                  = pre @ drop (length (ops @ [a]) - ?c) (map (turn_of dumps) (ops @ [a]))"
    by simp
  moreover have "max_turns (truncate_history ?m') = max_turns m"
    using mt by (simp add: truncate_max_turns)
  ultimately show ?case unfolding step by (rule conjI [rotated])
qed

text \<open>
  C6. Appending any sequence of turns to a ledger that is empty, or holds only a
  pinned leading system turn, leaves the pinned part in place followed by exactly
  the most recent \<open>2 * max_turns\<close> appended turns in their order of arrival; the
  number of surviving appended turns is the minimum of the number of appends and
  the cap. As this holds for every sequence, it holds after each append.
\<close>

theorem retention_exact:
  assumes "0 \<le> max_turns m" and "messages m = pre" and "pinned pre"
  shows "messages (foldl (append_turn dumps) m ops)
           = pre @ drop (length ops - nat (2 * max_turns m)) (map (turn_of dumps) ops)
         \<and> length (messages (foldl (append_turn dumps) m ops)) - length pre
           = min (length ops) (nat (2 * max_turns m))"
proof -
  from appends_kept [OF assms]
  have eq: "messages (foldl (append_turn dumps) m ops)
              = pre @ drop (length ops - nat (2 * max_turns m)) (map (turn_of dumps) ops)"
    by simp
  then show ?thesis by auto
qed

theorem retention_exact_witness:
  "messages (foldl (append_turn (\<lambda>_. ''{}''))
       \<lparr>max_turns = 1, messages = [\<lparr>role = ''system'', content = ''s'', msg_tool_name = None\<rparr>]\<rparr>
       [AddUser ''a'', AddTool ''get_weather'' JNull, AddAssistant ''b'', AddUser ''c''])
     = [\<lparr>role = ''system'', content = ''s'', msg_tool_name = None\<rparr>,
        assistant_turn ''b'', user_turn ''c'']"
  using retention_exact [of
      "\<lparr>max_turns = 1, messages = [\<lparr>role = ''system'', content = ''s'', msg_tool_name = None\<rparr>]\<rparr>"
      "[\<lparr>role = ''system'', content = ''s'', msg_tool_name = None\<rparr>]"
      "\<lambda>_. ''{}''"
      "[AddUser ''a'', AddTool ''get_weather'' JNull, AddAssistant ''b'', AddUser ''c'']"]
  by (simp add: pinned_def)

section \<open>The snapshot\<close>

lemma is_list_at_iff: "is_list_at h a \<longleftrightarrow> (\<exists>xs. objs h a = Some (ListObj xs))"
  by (simp add: is_list_at_def split: option.splits py_obj.splits)

lemma is_dict_at_iff: "is_dict_at h a \<longleftrightarrow> (\<exists>d. objs h a = Some (DictObj d))"
  by (simp add: is_dict_at_def split: option.splits py_obj.splits)

lemma wf_ledger_iff:
  "wf_ledger h self \<longleftrightarrow>
     (\<exists>xs. objs h (self_messages self) = Some (ListObj xs) \<and> self_messages self < next_addr h
        \<and> (\<forall>a \<in> set xs. a < next_addr h \<and> (\<exists>d. objs h a = Some (DictObj d))))"
  by (auto simp: wf_ledger_def is_list_at_iff is_dict_at_iff list_at_def list_all_iff)

lemma slice_map: "map f (slice_to xs i) = slice_to (map f xs) i"
  "map f (slice_from xs i) = slice_from (map f xs) i"
  by (simp_all add: slice_to_def slice_from_def take_map drop_map)

lemma set_slices: "set (slice_to xs i @ slice_from xs j) \<subseteq> set xs"
  by (auto simp: slice_to_def slice_from_def dest: in_set_takeD in_set_dropD)

lemma obj_truncate_refines:
  assumes "wf_ledger h self" and "obj_truncate_history h self = (h', self')"
  shows "ledger h' self' = truncate_history (ledger h self) \<and> wf_ledger h' self'
         \<and> next_addr h \<le> next_addr h' \<and> (\<forall>a < next_addr h. objs h' a = objs h a)"
proof -
  from assms(1) obtain xs where xs: "objs h (self_messages self) = Some (ListObj xs)"
    and lt: "self_messages self < next_addr h"
    and el: "\<forall>a \<in> set xs. a < next_addr h \<and> (\<exists>d. objs h a = Some (DictObj d))"
    unfolding wf_ledger_iff by blast
  have la: "list_at h (self_messages self) = xs" using xs by (simp add: list_at_def)
  show ?thesis
  proof (cases "int (length xs) \<le> self_max_turns self * 2")
    case True
    with assms la show ?thesis
      by (simp add: obj_truncate_history_def ledger_def truncate_history_def)
  next
    case False
    define hs where "hs = (xs \<noteq> [] \<and> role (dict_at h (hd xs)) = ''system'')"
    define ys where "ys = slice_to xs (if hs then 1 else 0)
        @ slice_from xs ((if hs then 1 else 0) + (int (length xs) - (self_max_turns self * 2) - (if hs then 1 else 0)))"
    have h': "h' = h\<lparr>objs := (objs h)(next_addr h \<mapsto> ListObj ys), next_addr := Suc (next_addr h)\<rparr>"
      and self': "self' = self\<lparr>self_messages := next_addr h\<rparr>"
      using assms(2) False la
      by (simp_all add: obj_truncate_history_def Let_def alloc_def hs_def ys_def split: if_splits)
    have sub: "set ys \<subseteq> set xs" unfolding ys_def by (rule set_slices)
    have same: "dict_at h' a = dict_at h a" if "a \<in> set xs" for a
      using el that by (auto simp: h' dict_at_def)
    have "map (dict_at h') ys = map (dict_at h) ys"
      using sub same by (auto intro!: map_cong)
    moreover have "(map (dict_at h) xs \<noteq> [] \<and> role (hd (map (dict_at h) xs)) = ''system'') = hs"
      by (cases xs) (simp_all add: hs_def)
    ultimately have "ledger h' self' = truncate_history (ledger h self)"
      using False la
      by (simp add: ledger_def truncate_history_def Let_def h' self' list_at_def
            ys_def slice_map)
    moreover have "wf_ledger h' self'"
      unfolding wf_ledger_iff
    proof (rule exI [of _ ys], intro conjI ballI)
      show "objs h' (self_messages self') = Some (ListObj ys)" by (simp add: h' self')
      show "self_messages self' < next_addr h'" by (simp add: h' self')
      fix a assume "a \<in> set ys"
      with sub have a: "a \<in> set xs" by auto
      then show "a < next_addr h'" using el by (auto simp: h' less_Suc_eq)
      from a show "\<exists>d. objs h' a = Some (DictObj d)" using el by (auto simp: h')
    qed
    ultimately show ?thesis by (simp add: h')
  qed
qed

lemma obj_append_refines:
  assumes "wf_ledger h self" and "obj_append h self d = (h', self')"
  shows "ledger h' self' = truncate_history ((ledger h self)\<lparr>messages := messages (ledger h self) @ [d]\<rparr>)
         \<and> wf_ledger h' self'
         \<and> next_addr h \<le> next_addr h'
         \<and> (\<forall>a < next_addr h. a \<noteq> self_messages self \<longrightarrow> objs h' a = objs h a)"
proof -
  from assms(1) obtain xs where xs: "objs h (self_messages self) = Some (ListObj xs)"
    and lt: "self_messages self < next_addr h"
    and el: "\<forall>a \<in> set xs. a < next_addr h \<and> (\<exists>d. objs h a = Some (DictObj d))"
    unfolding wf_ledger_iff by blast
  define h2 where "h2 = h\<lparr>next_addr := Suc (next_addr h),
       objs := (objs h)(next_addr h \<mapsto> DictObj d, self_messages self \<mapsto> ListObj (xs @ [next_addr h]))\<rparr>"
  have tr: "obj_truncate_history h2 self = (h', self')"
    using assms(2) xs lt
    by (simp add: obj_append_def alloc_def store_def list_at_def h2_def)
  have wf2: "wf_ledger h2 self"
    unfolding wf_ledger_iff
  proof (rule exI [of _ "xs @ [next_addr h]"], intro conjI ballI)
    show "objs h2 (self_messages self) = Some (ListObj (xs @ [next_addr h]))"
      by (simp add: h2_def)
    show "self_messages self < next_addr h2" using lt by (simp add: h2_def)
    fix a assume "a \<in> set (xs @ [next_addr h])"
    then show "a < next_addr h2" using el by (auto simp: h2_def less_Suc_eq)
    from \<open>a \<in> set (xs @ [next_addr h])\<close> show "\<exists>d. objs h2 a = Some (DictObj d)"
      using el xs lt by (auto simp: h2_def)
  qed
  have "map (dict_at h2) xs = map (dict_at h) xs"
    using el lt xs by (intro map_cong) (auto simp: h2_def dict_at_def)
  then have l2: "ledger h2 self = (ledger h self)\<lparr>messages := messages (ledger h self) @ [d]\<rparr>"
    using xs lt by (simp add: ledger_def list_at_def h2_def dict_at_def)
  from obj_truncate_refines [OF wf2 tr] l2
  show ?thesis by (auto simp: h2_def)
qed

lemma obj_appends_refines:
  assumes "wf_ledger h self"
  shows "ledger_after h self ds = foldl append_plain (ledger h self) ds"
  using assms
proof (induction ds arbitrary: h self)
  case Nil
  then show ?case by (simp add: ledger_after_def obj_appends_def)
next
  case (Cons d ds)
  obtain h' self' where step: "obj_append h self d = (h', self')" by (cases "obj_append h self d")
  from obj_append_refines [OF Cons.prems step]
  have "ledger h' self' = append_plain (ledger h self) d" and "wf_ledger h' self'"
    by (simp_all add: append_plain_def)
  with Cons.IH [of h' self'] step show ?case
    by (simp add: ledger_after_def obj_appends_def)
qed

lemma ledger_frame:
  assumes "wf_ledger h self" and "next_addr h \<le> a"
  shows "ledger (store h a ob) self = ledger h self \<and> wf_ledger (store h a ob) self"
proof -
  from assms(1) obtain xs where xs: "objs h (self_messages self) = Some (ListObj xs)"
    and lt: "self_messages self < next_addr h"
    and el: "\<forall>a \<in> set xs. a < next_addr h \<and> (\<exists>d. objs h a = Some (DictObj d))"
    unfolding wf_ledger_iff by blast
  have "map (dict_at (store h a ob)) xs = map (dict_at h) xs"
    using el assms(2) by (intro map_cong) (auto simp: store_def dict_at_def)
  then have "ledger (store h a ob) self = ledger h self"
    using xs lt assms(2) by (simp add: ledger_def list_at_def store_def)
  moreover have "wf_ledger (store h a ob) self"
    unfolding wf_ledger_iff
  proof (rule exI [of _ xs], intro conjI ballI)
    show "objs (store h a ob) (self_messages self) = Some (ListObj xs)"
      using xs lt assms(2) by (simp add: store_def)
    show "self_messages self < next_addr (store h a ob)" using lt by (simp add: store_def)
    fix b assume b: "b \<in> set xs"
    then show "b < next_addr (store h a ob)" using el by (simp add: store_def)
    from b show "\<exists>d. objs (store h a ob) b = Some (DictObj d)"
      using el assms(2) by (auto simp: store_def)
  qed
  ultimately show ?thesis ..
qed

lemma ledger_bump:
  assumes "wf_ledger h self"
  shows "ledger (h\<lparr>next_addr := Suc (next_addr h)\<rparr>) self = ledger h self
         \<and> wf_ledger (h\<lparr>next_addr := Suc (next_addr h)\<rparr>) self"
  using assms unfolding wf_ledger_iff
  by (auto simp: ledger_def list_at_def dict_at_def less_Suc_eq)

text \<open>
  C7, as the code has it. The list returned by \<^verbatim>\<open>get_messages\<close> is a new object holding
  the ledger's turns in order: whatever a caller does to that list (its elements
  become any \<open>ys\<close>), the ledger is as before, and so is the ledger after any further
  appends. The turn records in the list are the ledger's own.
\<close>

theorem snapshot_list_isolated:
  assumes "wf_ledger h self"
  shows "fst (obj_get_messages h self) \<noteq> self_messages self
       \<and> map (dict_at (snd (obj_get_messages h self)))
             (list_at (snd (obj_get_messages h self)) (fst (obj_get_messages h self)))
           = messages (ledger h self)
       \<and> ledger (snapshot_set_list h self ys) self = ledger h self
       \<and> ledger_after (snapshot_set_list h self ys) self ds = ledger_after h self ds"
proof -
  from assms obtain xs where xs: "objs h (self_messages self) = Some (ListObj xs)"
    and lt: "self_messages self < next_addr h"
    and el: "\<forall>a \<in> set xs. a < next_addr h \<and> (\<exists>d. objs h a = Some (DictObj d))"
    unfolding wf_ledger_iff by blast
  define h1 where "h1 = snd (obj_get_messages h self)"
  have snap: "obj_get_messages h self = (next_addr h, h1)"
    by (simp add: h1_def obj_get_messages_def alloc_def)
  have h1: "h1 = (store h (next_addr h) (ListObj xs))\<lparr>next_addr := Suc (next_addr h)\<rparr>"
    using xs by (simp add: h1_def obj_get_messages_def alloc_def store_def list_at_def)
  have mut: "snapshot_set_list h self ys
               = (store h (next_addr h) (ListObj ys))\<lparr>next_addr := Suc (next_addr h)\<rparr>"
    by (simp add: snapshot_set_list_def snap h1 store_def)
  have f2: "ledger (snapshot_set_list h self ys) self = ledger h self"
    and w2: "wf_ledger (snapshot_set_list h self ys) self"
    using ledger_frame [OF assms, of "next_addr h" "ListObj ys"]
      ledger_bump [of "store h (next_addr h) (ListObj ys)" self]
    by (simp_all add: mut store_def)
  have "map (dict_at h1) (list_at h1 (next_addr h)) = messages (ledger h self)"
  proof -
    have "map (dict_at h1) xs = map (dict_at h) xs"
      using el by (intro map_cong) (auto simp: h1 store_def dict_at_def)
    then show ?thesis using xs by (simp add: h1 store_def list_at_def ledger_def)
  qed
  moreover have "ledger_after (snapshot_set_list h self ys) self ds = ledger_after h self ds"
    using obj_appends_refines [OF w2, of ds] obj_appends_refines [OF assms, of ds] f2 by simp
  ultimately show ?thesis using lt f2 by (simp add: snap)
qed

theorem snapshot_list_isolated_witness:
  "ledger (snapshot_set_list (fst one_turn_ledger) (snd one_turn_ledger) []) (snd one_turn_ledger)
     = \<lparr>max_turns = 10, messages = [user_turn ''hi'']\<rparr>"
proof -
  have wf: "wf_ledger (fst one_turn_ledger) (snd one_turn_ledger)"
    by (simp add: one_turn_ledger_def new_memory_def obj_append_def obj_truncate_history_def
          alloc_def store_def list_at_def wf_ledger_def is_list_at_def is_dict_at_def)
  have "ledger (fst one_turn_ledger) (snd one_turn_ledger)
          = \<lparr>max_turns = 10, messages = [user_turn ''hi'']\<rparr>"
    by (simp add: one_turn_ledger_def new_memory_def obj_append_def obj_truncate_history_def
          alloc_def store_def list_at_def dict_at_def ledger_def)
  with snapshot_list_isolated [OF wf, of "[]" "[]"] show ?thesis by simp
qed

text \<open>
  C7 as stated fails: assigning to a key of a turn record reached through the
  returned list changes the ledger's own record.
\<close>

theorem snapshot_turn_aliased:
  "messages (ledger (fst one_turn_ledger) (snd one_turn_ledger)) = [user_turn ''hi''] \<and>
   messages (ledger (snapshot_set_content (fst one_turn_ledger) (snd one_turn_ledger) 0 ''changed'')
                    (snd one_turn_ledger)) = [user_turn ''changed'']"
  by (simp add: one_turn_ledger_def new_memory_def obj_append_def obj_truncate_history_def
        obj_get_messages_def snapshot_set_content_def
        alloc_def store_def list_at_def dict_at_def ledger_def user_turn_def)

section \<open>Extraction: proofs\<close>

lemma star_space_greedy_base: "k s \<noteq> None \<Longrightarrow> star_space_greedy k s \<noteq> None"
  by (cases s) (auto split: option.splits)

lemma star_space_greedy_complete:
  "list_all is_space ws \<Longrightarrow> k t \<noteq> None \<Longrightarrow> star_space_greedy k (ws @ t) \<noteq> None"
proof (induction ws)
  case Nil
  then show ?case by (simp add: star_space_greedy_base)
next
  case (Cons w ws)
  then have "star_space_greedy k (ws @ t) \<noteq> None" by simp
  with Cons.prems show ?case by (auto split: option.splits)
qed

lemma star_any_lazy_complete:
  "k (grp @ a) t \<noteq> None \<Longrightarrow> star_any_lazy k grp (a @ t) \<noteq> None"
proof (induction a arbitrary: grp)
  case Nil
  then show ?case by (cases t) (auto split: option.splits)
next
  case (Cons c a)
  from Cons.prems have "k ((grp @ [c]) @ a) t \<noteq> None" by simp
  from Cons.IH [OF this] show ?case by (auto split: option.splits)
qed

lemma lit_complete: "k t \<noteq> None \<Longrightarrow> lit p k (p @ t) \<noteq> None"
  by (simp add: lit_def)

lemma opt_greedy_complete: "k s \<noteq> None \<Longrightarrow> opt_greedy r k s \<noteq> None"
  by (simp add: opt_greedy_def split: option.splits)

lemma match_fence_complete: "match_fence (fence @ mid @ fence @ rest) \<noteq> None"
proof -
  let ?inner = "\<lambda>g. star_space_greedy (lit fence (\<lambda>rest. Some (g, rest)))"
  have "lit fence (\<lambda>r. Some ([] @ mid, r)) (fence @ rest) \<noteq> None"
    by (rule lit_complete) simp
  then have "?inner ([] @ mid) (fence @ rest) \<noteq> None"
    by (rule star_space_greedy_base)
  then have "star_any_lazy ?inner [] (mid @ fence @ rest) \<noteq> None"
    by (rule star_any_lazy_complete)
  then have "star_space_greedy (\<lambda>s1. star_any_lazy ?inner [] s1) (mid @ fence @ rest) \<noteq> None"
    by (rule star_space_greedy_base)
  then have "opt_greedy (lit json_tag) (star_space_greedy (\<lambda>s1. star_any_lazy ?inner [] s1))
               (mid @ fence @ rest) \<noteq> None"
    by (rule opt_greedy_complete)
  then show ?thesis unfolding match_fence_def by (rule lit_complete)
qed

lemma match_fence_iff:
  "match_fence s \<noteq> None \<longleftrightarrow> (\<exists>mid rest. s = fence @ mid @ fence @ rest)"
proof
  assume "match_fence s \<noteq> None"
  then obtain grp rest where "match_fence s = Some (grp, rest)" by auto
  from match_fence_Some [OF this] obtain lang ws1 ws2
    where "s = fence @ lang @ ws1 @ grp @ ws2 @ fence @ rest" by blast
  then have "s = fence @ (lang @ ws1 @ grp @ ws2) @ fence @ rest" by simp
  then show "\<exists>mid rest. s = fence @ mid @ fence @ rest" by blast
next
  assume "\<exists>mid rest. s = fence @ mid @ fence @ rest"
  then show "match_fence s \<noteq> None" using match_fence_complete by auto
qed

lemma findall_nonempty_iff:
  "findall resp \<noteq> [] \<longleftrightarrow> (\<exists>pre mid post. resp = pre @ fence @ mid @ fence @ post)"
proof
  show "findall resp \<noteq> [] \<Longrightarrow> \<exists>pre mid post. resp = pre @ fence @ mid @ fence @ post"
  proof (induction resp rule: findall.induct)
    case 1
    then show ?case by simp
  next
    case (2 c s)
    show ?case
    proof (cases "match_fence (c # s)")
      case None
      with "2.prems" have "findall s \<noteq> []" by simp
      from "2.IH"(1) [OF None this] obtain pre mid post
        where "s = pre @ fence @ mid @ fence @ post" by blast
      then have "c # s = (c # pre) @ fence @ mid @ fence @ post" by simp
      then show ?thesis by blast
    next
      case (Some x)
      then have "match_fence (c # s) \<noteq> None" by simp
      then obtain mid rest where "c # s = fence @ mid @ fence @ rest"
        unfolding match_fence_iff by blast
      then have "c # s = [] @ fence @ mid @ fence @ rest" by simp
      then show ?thesis by blast
    qed
  qed
next
  assume "\<exists>pre mid post. resp = pre @ fence @ mid @ fence @ post"
  then obtain pre mid post where "resp = pre @ fence @ mid @ fence @ post" by blast
  then show "findall resp \<noteq> []"
  proof (induction pre arbitrary: resp)
    case Nil
    then have m: "match_fence resp \<noteq> None" using match_fence_complete by simp
    from Nil obtain c s where "resp = c # s" by (cases resp) (simp_all add: fence_def)
    with m show ?case by (auto split: option.splits)
  next
    case (Cons c pre)
    then have "findall (pre @ fence @ mid @ fence @ post) \<noteq> []" by simp
    with Cons.prems show ?case by (auto split: option.splits)
  qed
qed

lemma findall_member:
  "c \<in> set (findall resp) \<Longrightarrow>
     \<exists>pre lang ws1 ws2 post. resp = pre @ fence @ lang @ ws1 @ c @ ws2 @ fence @ post
        \<and> (lang = [] \<or> lang = json_tag) \<and> list_all is_space ws1 \<and> list_all is_space ws2"
proof (induction resp rule: findall.induct)
  case 1
  then show ?case by simp
next
  case (2 a s)
  show ?case
  proof (cases "match_fence (a # s)")
    case None
    with "2.prems" have "c \<in> set (findall s)" by simp
    from "2.IH"(1) [OF None this] obtain pre lang ws1 ws2 post
      where "s = pre @ fence @ lang @ ws1 @ c @ ws2 @ fence @ post"
        and *: "lang = [] \<or> lang = json_tag" "list_all is_space ws1" "list_all is_space ws2"
      by blast
    then have "a # s = (a # pre) @ fence @ lang @ ws1 @ c @ ws2 @ fence @ post" by simp
    with * show ?thesis by blast
  next
    case (Some x)
    obtain grp rest where x: "x = (grp, rest)" by (cases x)
    from match_fence_Some [OF Some [unfolded x]] obtain lang ws1 ws2
      where s: "a # s = fence @ lang @ ws1 @ grp @ ws2 @ fence @ rest"
        and *: "lang = [] \<or> lang = json_tag" "list_all is_space ws1" "list_all is_space ws2"
      by blast
    from "2.prems" Some x have "c = grp \<or> c \<in> set (findall rest)" by simp
    then show ?thesis
    proof
      assume "c = grp"
      with s have "a # s = [] @ fence @ lang @ ws1 @ c @ ws2 @ fence @ rest" by simp
      with * show ?thesis by blast
    next
      assume "c \<in> set (findall rest)"
      from "2.IH"(2) [OF Some x [symmetric] this] obtain pre lang' ws1' ws2' post
        where "rest = pre @ fence @ lang' @ ws1' @ c @ ws2' @ fence @ post"
          and **: "lang' = [] \<or> lang' = json_tag" "list_all is_space ws1'" "list_all is_space ws2'"
        by blast
      with s have "a # s = (fence @ lang @ ws1 @ grp @ ws2 @ fence @ pre)
                       @ fence @ lang' @ ws1' @ c @ ws2' @ fence @ post" by simp
      with ** show ?thesis by blast
    qed
  qed
qed

lemma try_json_matches_cong:
  "(\<And>c. c \<in> set cs \<Longrightarrow> loads' c = loads c)
     \<Longrightarrow> try_json_matches loads' cs = try_json_matches loads cs"
  by (induction cs) (auto split: sum.splits)

lemma try_json_matches_skip:
  "(\<And>c. c \<in> set cs \<Longrightarrow> skipped loads c) \<Longrightarrow>
     try_json_matches loads (cs @ rest) = try_json_matches loads rest"
proof (induction cs)
  case Nil
  then show ?case by simp
next
  case (Cons c cs)
  then have "skipped loads c" by simp
  then have "try_json_matches loads ((c # cs) @ rest) = try_json_matches loads (cs @ rest)"
    by (auto simp: skipped_def split: sum.splits)
  with Cons show ?case by simp
qed

lemma extract_tool_call_candidates:
  "extract_tool_call loads resp = try_json_matches loads (json_candidates resp)"
  by (simp add: extract_tool_call_def json_candidates_def)

lemmas matcher_eval = match_fence_def lit_def opt_greedy_def is_space_def fence_def json_tag_def

text \<open>
  C1. The candidates are tried in the order found. When every candidate is skipped
  (the decoder raises \<^verbatim>\<open>JSONDecodeError\<close> on it, or it decodes to a value that is not
  a dict with the key \<^verbatim>\<open>use_tool\<close>), the result is
  \<^verbatim>\<open>None\<close> and nothing is raised. When
  the candidates before \<open>c\<close> are skipped and \<open>c\<close> decodes to a dict with the key, the
  result is that dict, whatever comes after.
\<close>

theorem extract_first_tool_call:
  "((\<forall>c \<in> set (json_candidates resp). skipped loads c)
      \<longrightarrow> extract_tool_call loads resp = Inr None)
   \<and> (json_candidates resp = before @ c # after \<and> (\<forall>b \<in> set before. skipped loads b)
        \<and> loads c = Inr data \<and> dict_has_key data ''use_tool''
      \<longrightarrow> extract_tool_call loads resp = Inr (Some data))"
proof (intro conjI impI)
  assume "\<forall>c \<in> set (json_candidates resp). skipped loads c"
  then have "try_json_matches loads (json_candidates resp @ []) = try_json_matches loads []"
    by (intro try_json_matches_skip) simp
  then show "extract_tool_call loads resp = Inr None"
    by (simp add: extract_tool_call_candidates)
next
  assume a: "json_candidates resp = before @ c # after \<and> (\<forall>b \<in> set before. skipped loads b)
        \<and> loads c = Inr data \<and> dict_has_key data ''use_tool''"
  then have "try_json_matches loads (before @ c # after) = try_json_matches loads (c # after)"
    by (intro try_json_matches_skip) simp
  with a show "extract_tool_call loads resp = Inr (Some data)"
    by (simp add: extract_tool_call_candidates)
qed

lemma findall_two_blocks:
  "findall two_blocks = [''{not json'', ''{\"a\": 1}'', ''{\"use_tool\": true}'']"
  by (simp add: two_blocks_def matcher_eval)

lemma findall_prose: "findall plain_prose = []"
  by (simp add: plain_prose_def matcher_eval)

lemma loads_samples:
  "table_loads sample_documents ''{not json'' = Inl (PyExn JSONDecodeError ''Expecting value'')"
  "table_loads sample_documents ''{\"a\": 1}'' = Inr (JObject [(''a'', JInt 1)])"
  "table_loads sample_documents ''{\"use_tool\": true}'' = Inr (JObject [(''use_tool'', JBool True)])"
  "table_loads sample_documents plain_prose = Inl (PyExn JSONDecodeError ''Expecting value'')"
  by (simp_all add: table_loads_def sample_documents_def plain_prose_def)

theorem extract_first_tool_call_witness:
  "extract_tool_call (table_loads sample_documents) two_blocks
     = Inr (Some (JObject [(''use_tool'', JBool True)]))
   \<and> extract_tool_call (table_loads sample_documents) plain_prose = Inr None"
proof -
  let ?loads = "table_loads sample_documents"
  have "extract_tool_call ?loads two_blocks = Inr (Some (JObject [(''use_tool'', JBool True)]))"
    using extract_first_tool_call [of two_blocks ?loads
        "[''{not json'', ''{\"a\": 1}'']" "''{\"use_tool\": true}''" "[]"
        "JObject [(''use_tool'', JBool True)]", THEN conjunct2]
    by (simp add: json_candidates_def findall_two_blocks skipped_def loads_samples)
  moreover have "extract_tool_call ?loads plain_prose = Inr None"
    using extract_first_tool_call [of plain_prose ?loads, THEN conjunct1]
    by (simp add: json_candidates_def findall_prose skipped_def loads_samples)
  ultimately show ?thesis by simp
qed

text \<open>
  C9. A response has a fenced block exactly when it holds two fence markers that do
  not overlap. Then the candidates are the fenced contents only, each of them a part
  of the response between two fences, and the result does not depend on what the
  decoder does with any other text. Without a fenced block the only candidate is the
  whole response: the result depends on what the decoder does with the whole response
  only, and is \<^verbatim>\<open>None\<close> when the whole response is not a tool call, whatever it
  contains.
\<close>

theorem fenced_blocks_only:
  "(findall resp \<noteq> [] \<longleftrightarrow> (\<exists>pre mid post. resp = pre @ fence @ mid @ fence @ post))
   \<and> (findall resp \<noteq> [] \<longrightarrow>
        extract_tool_call loads resp = try_json_matches loads (findall resp)
        \<and> (\<forall>c \<in> set (findall resp).
              \<exists>pre lang ws1 ws2 post.
                resp = pre @ fence @ lang @ ws1 @ c @ ws2 @ fence @ post
                \<and> (lang = [] \<or> lang = json_tag)
                \<and> list_all is_space ws1 \<and> list_all is_space ws2)
        \<and> ((\<forall>c \<in> set (findall resp). loads' c = loads c)
              \<longrightarrow> extract_tool_call loads' resp = extract_tool_call loads resp))
   \<and> (findall resp = [] \<longrightarrow>
        extract_tool_call loads resp = try_json_matches loads [resp]
        \<and> (loads' resp = loads resp
              \<longrightarrow> extract_tool_call loads' resp = extract_tool_call loads resp)
        \<and> (\<not> is_tool_call loads resp \<and> skipped loads resp
              \<longrightarrow> extract_tool_call loads resp = Inr None))"
proof (intro conjI impI ballI)
  show "findall resp \<noteq> [] \<longleftrightarrow> (\<exists>pre mid post. resp = pre @ fence @ mid @ fence @ post)"
    by (rule findall_nonempty_iff)
next
  assume "findall resp \<noteq> []"
  then show "extract_tool_call loads resp = try_json_matches loads (findall resp)"
    by (simp add: extract_tool_call_def)
next
  fix c assume "c \<in> set (findall resp)"
  then show "\<exists>pre lang ws1 ws2 post.
                resp = pre @ fence @ lang @ ws1 @ c @ ws2 @ fence @ post
                \<and> (lang = [] \<or> lang = json_tag)
                \<and> list_all is_space ws1 \<and> list_all is_space ws2"
    by (rule findall_member)
next
  assume "findall resp \<noteq> []" and "\<forall>c \<in> set (findall resp). loads' c = loads c"
  then show "extract_tool_call loads' resp = extract_tool_call loads resp"
    using try_json_matches_cong [of "findall resp" loads' loads]
    by (simp add: extract_tool_call_def)
next
  assume "findall resp = []"
  then show "extract_tool_call loads resp = try_json_matches loads [resp]"
    by (simp add: extract_tool_call_def)
next
  assume "findall resp = []" and "loads' resp = loads resp"
  then show "extract_tool_call loads' resp = extract_tool_call loads resp"
    by (auto simp: extract_tool_call_def split: sum.splits)
next
  assume "findall resp = []" and "\<not> is_tool_call loads resp \<and> skipped loads resp"
  then show "extract_tool_call loads resp = Inr None"
    by (auto simp: extract_tool_call_def skipped_def split: sum.splits)
qed

lemma findall_bare_then_fenced: "findall bare_then_fenced = [''{\"a\": 1}'']"
  by (simp add: bare_then_fenced_def matcher_eval)

lemma findall_bare_in_prose: "findall bare_in_prose = []"
  by (simp add: bare_in_prose_def matcher_eval)

lemma loads_bare_in_prose:
  "table_loads sample_documents bare_in_prose = Inl (PyExn JSONDecodeError ''Expecting value'')"
  by (simp add: table_loads_def sample_documents_def bare_in_prose_def)

theorem fenced_blocks_only_witness:
  "extract_tool_call (table_loads sample_documents) bare_then_fenced = Inr None
   \<and> extract_tool_call (table_loads sample_documents) bare_in_prose = Inr None"
proof -
  let ?loads = "table_loads sample_documents"
  have "extract_tool_call ?loads bare_then_fenced = try_json_matches ?loads [''{\"a\": 1}'']"
    using fenced_blocks_only [of bare_then_fenced ?loads ?loads, THEN conjunct2, THEN conjunct1]
    by (simp add: findall_bare_then_fenced)
  moreover have "extract_tool_call ?loads bare_in_prose = Inr None"
    using fenced_blocks_only [of bare_in_prose ?loads ?loads, THEN conjunct2, THEN conjunct2]
    by (simp add: findall_bare_in_prose skipped_def is_tool_call_def loads_bare_in_prose)
  ultimately show ?thesis
    by (simp add: table_loads_def sample_documents_def)
qed

section \<open>The router: proofs\<close>

lemma process_query_eq:
  "process_query env tools mem query =
     handle_error (process_query_try env tools (start_state env tools mem query) query
                     (routing_messages env tools (add_user_message mem query) query))"
  by (simp add: process_query_def start_state_def Let_def)

lemma stream_cases:
  obtains (raised) e where "r = CallRaises e" "failure_of r = Some e" "chunks_of r = []"
  | (broken) chunks e where "r = Stream chunks (Some e)" "failure_of r = Some e" "chunks_of r = chunks"
  | (complete) chunks where "r = Stream chunks None" "failure_of r = None" "chunks_of r = chunks"
proof (cases r)
  case (CallRaises e)
  then show ?thesis using raised by simp
next
  case (Stream chunks failure)
  then show ?thesis using broken complete by (cases failure) simp_all
qed

lemma try_routing_failed:
  assumes "failure_of (stream_async env msgs) = Some e"
  shows "process_query_try env tools st query msgs = (Some e, st)"
  using assms by (cases "stream_async env msgs" rule: stream_cases)
    (simp_all add: process_query_try_def)

lemma try_routing_ok:
  assumes "failure_of (stream_async env msgs) = None"
  shows "process_query_try env tools st query msgs =
           (case extract_tool_call (json_loads env) (full_text (stream_async env msgs)) of
              Inl e \<Rightarrow> (Some e, st)
            | Inr None \<Rightarrow> direct_answer st (full_text (stream_async env msgs))
            | Inr (Some tool_call) \<Rightarrow>
                if truthy tool_call \<and> truthy (dict_get tool_call ''use_tool'' (JBool False))
                then dispatch env tools st tool_call query
                else direct_answer st (full_text (stream_async env msgs)))"
  using assms by (cases "stream_async env msgs" rule: stream_cases)
    (simp_all add: process_query_try_def full_text_def Let_def split: sum.splits option.splits)

lemma process_query_routing_failed:
  assumes "failure_of (routing_reply env tools mem query) = Some e"
  shows "process_query env tools mem query =
           (start_state env tools mem query)\<lparr>yielded := [error_text e]\<rparr>"
  using assms
  by (simp add: process_query_eq routing_reply_def try_routing_failed handle_error_def
        start_state_def)

lemma process_query_intent:
  assumes "intent env tools mem query = Some d"
  shows "process_query env tools mem query =
           handle_error (dispatch env tools (start_state env tools mem query) d query)"
proof -
  from assms have ok: "failure_of (routing_reply env tools mem query) = None"
    by (simp add: intent_def split: if_splits)
  with assms have "extract_tool_call (json_loads env) (full_text (routing_reply env tools mem query))
          = Inr (Some d)"
    and "truthy d \<and> truthy (dict_get d ''use_tool'' (JBool False))"
    by (auto simp: intent_def split: sum.splits option.splits if_splits)
  then show ?thesis
    using ok by (simp add: process_query_eq try_routing_ok [unfolded routing_reply_def [symmetric]]
        routing_reply_def [symmetric])
qed

lemma process_query_no_intent:
  assumes "failure_of (routing_reply env tools mem query) = None"
    and "intent env tools mem query = None"
  shows "(\<exists>e. extract_tool_call (json_loads env) (full_text (routing_reply env tools mem query)) = Inl e
            \<and> process_query env tools mem query
                = (start_state env tools mem query)\<lparr>yielded := [error_text e]\<rparr>)
         \<or> process_query env tools mem query
              = (start_state env tools mem query)
                  \<lparr>yielded := [full_text (routing_reply env tools mem query)],
                   memory := add_assistant_message (add_user_message mem query)
                               (full_text (routing_reply env tools mem query))\<rparr>"
  using assms
  by (auto simp: process_query_eq try_routing_ok [unfolded routing_reply_def [symmetric]]
        routing_reply_def [symmetric] intent_def handle_error_def direct_answer_def start_state_def
      split: sum.splits option.splits if_splits)


lemma answer_with_llm_fields:
  "calls (answer_with_llm env st query) = calls st @ [FallbackCall (fallback_messages query)]"
  "yielded (answer_with_llm env st query) =
     yielded st @ contents (chunks_of (stream_async env (fallback_messages query)))
       @ (case failure_of (stream_async env (fallback_messages query)) of
            Some e \<Rightarrow> [general_error_text e] | None \<Rightarrow> [])"
  "memory (answer_with_llm env st query) =
     (case failure_of (stream_async env (fallback_messages query)) of
        Some e \<Rightarrow> memory st
      | None \<Rightarrow> add_assistant_message (memory st)
                  (full_text (stream_async env (fallback_messages query))))"
  by (cases "stream_async env (fallback_messages query)" rule: stream_cases;
      simp add: answer_with_llm_def Let_def full_text_def)+

lemma use_tool_fields:
  fixes env st tool name tool_parameters query
  defines "resp \<equiv> run_tool env tool name tool_parameters"
  defines "r \<equiv> stream_async env (result_messages env name resp query)"
  shows "calls (handle_error (use_tool env st tool name tool_parameters query)) =
           calls st @ [ToolCall name tool_parameters, ResultCall (result_messages env name resp query)]"
    and "yielded (handle_error (use_tool env st tool name tool_parameters query)) =
           yielded st @ [using_tool_text name] @ contents (chunks_of r)
             @ (case failure_of r of Some e \<Rightarrow> [error_text e] | None \<Rightarrow> [])"
    and "memory (handle_error (use_tool env st tool name tool_parameters query)) =
           (case failure_of r of
              Some e \<Rightarrow> add_tool_message (json_dumps env) (memory st) name resp
            | None \<Rightarrow> add_assistant_message
                        (add_tool_message (json_dumps env) (memory st) name resp) (full_text r))"
  unfolding resp_def r_def
  by (cases "stream_async env (result_messages env name (run_tool env tool name tool_parameters) query)"
        rule: stream_cases;
      simp add: use_tool_def handle_error_def Let_def full_text_def)+

lemma start_state_fields:
  "memory (start_state env tools mem query) = add_user_message mem query"
  "yielded (start_state env tools mem query) = []"
  "calls (start_state env tools mem query)
     = [RoutingCall (routing_messages env tools (add_user_message mem query) query)]"
  by (simp_all add: start_state_def)

lemma process_query_fallback:
  assumes "intent env tools mem query = Some d"
    and "lookup_tool env tools (dict_get d ''tool_name'' JNull) = Inr None"
  shows "process_query env tools mem query =
           answer_with_llm env
             ((start_state env tools mem query)
                \<lparr>yielded := [unavailable_notice env (dict_get d ''tool_name'' JNull)]\<rparr>) query"
  using assms(2)
  by (simp add: process_query_intent [OF assms(1)] dispatch_def Let_def handle_error_def
        start_state_fields)

lemma process_query_tool:
  assumes "intent env tools mem query = Some d"
    and "lookup_tool env tools (dict_get d ''tool_name'' JNull) = Inr (Some tool)"
  shows "process_query env tools mem query =
           handle_error (use_tool env (start_state env tools mem query) tool
             (fmt env (dict_get d ''tool_name'' JNull))
             (dict_get d ''tool_parameters'' (JObject [])) query)"
  using assms(2)
  by (simp add: process_query_intent [OF assms(1)] dispatch_def Let_def)

lemma process_query_lookup_raised:
  assumes "intent env tools mem query = Some d"
    and "lookup_tool env tools (dict_get d ''tool_name'' JNull) = Inl e"
  shows "process_query env tools mem query =
           (start_state env tools mem query)\<lparr>yielded := [error_text e]\<rparr>"
  using assms(2)
  by (simp add: process_query_intent [OF assms(1)] dispatch_def Let_def handle_error_def
        start_state_fields)


lemma process_query_plain:
  assumes "plain_reply env tools mem query"
  shows "process_query env tools mem query =
           (start_state env tools mem query)
             \<lparr>yielded := [full_text (routing_reply env tools mem query)],
              memory := add_assistant_message (add_user_message mem query)
                          (full_text (routing_reply env tools mem query))\<rparr>"
proof -
  from assms have ok: "failure_of (routing_reply env tools mem query) = None"
    and ex: "extract_tool_call (json_loads env) (full_text (routing_reply env tools mem query)) = Inr None"
    by (simp_all add: plain_reply_def)
  then have "intent env tools mem query = None" by (simp add: intent_def)
  from process_query_no_intent [OF ok this] ex show ?thesis by simp
qed

lemma lookup_tool_registered:
  "lookup_tool env tools v = Inr (Some tool) \<Longrightarrow> \<exists>n. v = JString n \<and> tool_map tools n = Some tool"
  by (cases v) simp_all

lemma tool_map_None: "tool_map tools n = None \<longleftrightarrow> n \<notin> set (map tool_name tools)"
  by (simp add: tool_map_def map_of_eq_None_iff image_image)

lemma routing_call_only:
  assumes "calls out = [RoutingCall m]" and "c \<in> set (calls out)"
    and "call_failure env c = Some e" and "failure_of (stream_async env m) = None"
  shows False
  using assms by simp

text \<open>
  C8. The calls to the model during one query are the routing call, followed by nothing,
  by one result-formatting call or by one general-knowledge call.
\<close>

theorem at_most_two_model_calls:
  "\<exists>second.
      filter is_model_call (calls (process_query env tools mem query))
        = RoutingCall (routing_messages env tools (add_user_message mem query) query) # second
      \<and> (second = []
           \<or> (\<exists>name resp. second = [ResultCall (result_messages env name resp query)])
           \<or> second = [FallbackCall (fallback_messages query)])"
proof (cases "failure_of (routing_reply env tools mem query)")
  case (Some e)
  then show ?thesis by (simp add: process_query_routing_failed start_state_fields)
next
  case None
  show ?thesis
  proof (cases "intent env tools mem query")
    case no: None
    from process_query_no_intent [OF None no] show ?thesis
      by (auto simp: start_state_fields)
  next
    case (Some d)
    show ?thesis
    proof (cases "lookup_tool env tools (dict_get d ''tool_name'' JNull)")
      case (Inl e)
      then show ?thesis
        by (simp add: process_query_lookup_raised [OF Some] start_state_fields)
    next
      case (Inr found)
      show ?thesis
      proof (cases found)
        case no: None
        with Inr show ?thesis
          by (simp add: process_query_fallback [OF Some] answer_with_llm_fields start_state_fields)
      next
        case (Some tool)
        with Inr have "lookup_tool env tools (dict_get d ''tool_name'' JNull) = Inr (Some tool)"
          by simp
        from process_query_tool [OF \<open>intent env tools mem query = Some d\<close> this]
        show ?thesis by (auto simp: use_tool_fields start_state_fields)
      qed
    qed
  qed
qed

text \<open>
  C5. When the router acts on an intent whose tool name is no key of the tool map (the
  membership test is false), the caller receives the notice, then the chunks of the
  general-knowledge call (and its error text should that call fail). The calls of the
  query are the routing call and that one call, whose messages are the fixed
  general-knowledge system text and the query: no tool is executed and the routing call
  is not made again.
\<close>

theorem unknown_tool_fallback:
  assumes "intent env tools mem query = Some d"
    and "lookup_tool env tools (dict_get d ''tool_name'' JNull) = Inr None"
  shows "yielded (process_query env tools mem query) =
           unavailable_notice env (dict_get d ''tool_name'' JNull)
           # contents (chunks_of (stream_async env (fallback_messages query)))
           @ (case failure_of (stream_async env (fallback_messages query)) of
                Some e \<Rightarrow> [general_error_text e] | None \<Rightarrow> [])
         \<and> calls (process_query env tools mem query) =
             [RoutingCall (routing_messages env tools (add_user_message mem query) query),
              FallbackCall (fallback_messages query)]
         \<and> fallback_messages query =
             [\<lparr>role = ''system'',
               content = ''You are a helpful AI assistant. Answer the user's question based on your general knowledge.'',
               msg_tool_name = None\<rparr>,
              \<lparr>role = ''user'', content = query, msg_tool_name = None\<rparr>]"
  by (simp add: process_query_fallback [OF assms] answer_with_llm_fields start_state_fields
        fallback_messages_def user_turn_def)

text \<open>
  C10. On that path, when the general-knowledge call completes, the ledger is the one
  after the user turn with one assistant turn appended, whose content is the
  concatenation of the chunks of that call; the notice is the first string yielded and
  is no part of the turn. When the call fails, the last string yielded is the error text
  and the ledger is the one after the user turn.
\<close>

theorem fallback_ledger:
  assumes "intent env tools mem query = Some d"
    and "lookup_tool env tools (dict_get d ''tool_name'' JNull) = Inr None"
  shows "hd (yielded (process_query env tools mem query))
           = unavailable_notice env (dict_get d ''tool_name'' JNull)
         \<and> (failure_of (stream_async env (fallback_messages query)) = None \<longrightarrow>
              memory (process_query env tools mem query) =
                add_assistant_message (add_user_message mem query)
                  (concat (contents (chunks_of (stream_async env (fallback_messages query))))))
         \<and> (\<forall>e. failure_of (stream_async env (fallback_messages query)) = Some e \<longrightarrow>
              last (yielded (process_query env tools mem query)) = general_error_text e
              \<and> memory (process_query env tools mem query) = add_user_message mem query)"
  by (simp add: process_query_fallback [OF assms] answer_with_llm_fields start_state_fields
        full_text_def)

text \<open>
  C4. When the router acts on an intent naming a registered tool and the call of its
  \<^verbatim>\<open>execute\<close> raises \<open>e\<close>, the router builds the error payload from \<open>e\<close>, appends it as
  a tool turn and makes the result-formatting call with the prompt built from that
  payload. The caller receives the indicator and the chunks of that call, and when the
  call completes their concatenation is appended as the assistant turn.
\<close>

theorem tool_exception_contained:
  fixes env tools mem query d tool e
  defines "name \<equiv> fmt env (dict_get d ''tool_name'' JNull)"
  defines "payload \<equiv>
     JObject [(''error'', JString (''Error executing tool '' @ name @ '': '' @ exn_str e)),
              (''details'', JString (format_exc env e))]"
  defines "reply \<equiv> stream_async env (result_messages env name payload query)"
  assumes "intent env tools mem query = Some d"
    and "lookup_tool env tools (dict_get d ''tool_name'' JNull) = Inr (Some tool)"
    and "call_execute env tool (dict_get d ''tool_parameters'' (JObject [])) = Inl e"
  shows "calls (process_query env tools mem query) =
           [RoutingCall (routing_messages env tools (add_user_message mem query) query),
            ToolCall name (dict_get d ''tool_parameters'' (JObject [])),
            ResultCall (result_messages env name payload query)]
         \<and> yielded (process_query env tools mem query) =
             using_tool_text name # contents (chunks_of reply)
             @ (case failure_of reply of Some e' \<Rightarrow> [error_text e'] | None \<Rightarrow> [])
         \<and> memory (process_query env tools mem query) =
             (case failure_of reply of
                Some e' \<Rightarrow> add_tool_message (json_dumps env) (add_user_message mem query) name payload
              | None \<Rightarrow>
                  add_assistant_message
                    (add_tool_message (json_dumps env) (add_user_message mem query) name payload)
                    (concat (contents (chunks_of reply))))"
proof -
  have "run_tool env tool name (dict_get d ''tool_parameters'' (JObject [])) = payload"
    using assms(6) by (simp add: run_tool_def payload_def)
  then show ?thesis
    unfolding process_query_tool [OF assms(4,5)] name_def [symmetric] reply_def
    by (simp add: use_tool_fields start_state_fields full_text_def split: option.splits)
qed


text \<open>
  C2, as the code has it. When a model call of a query fails with \<open>e\<close>, the last string
  the caller receives is the error text for \<open>e\<close>. The ledger is the one after the user
  turn, except when the failing call is the result-formatting call: the tool turn was
  appended before that call and stays. In no case is an assistant turn appended, and a
  next query on the ledger left behind is processed as any other: a plain reply to it
  is yielded and appended.
\<close>

theorem model_failure_outcome:
  assumes "c \<in> set (calls (process_query env tools mem query))"
    and "call_failure env c = Some e"
  shows "yielded (process_query env tools mem query) \<noteq> []
       \<and> last (yielded (process_query env tools mem query))
           = (case c of FallbackCall m \<Rightarrow> general_error_text e | _ \<Rightarrow> error_text e)
       \<and> (case c of
             ResultCall m \<Rightarrow>
               (\<exists>name resp. memory (process_query env tools mem query)
                  = add_tool_message (json_dumps env) (add_user_message mem query) name resp)
           | _ \<Rightarrow> memory (process_query env tools mem query) = add_user_message mem query)
       \<and> (\<forall>env' query'.
             plain_reply env' tools (memory (process_query env tools mem query)) query' \<longrightarrow>
             process_query env' tools (memory (process_query env tools mem query)) query' =
               (start_state env' tools (memory (process_query env tools mem query)) query')
                 \<lparr>yielded := [full_text (routing_reply env' tools
                                 (memory (process_query env tools mem query)) query')],
                  memory := add_assistant_message
                    (add_user_message (memory (process_query env tools mem query)) query')
                    (full_text (routing_reply env' tools
                                 (memory (process_query env tools mem query)) query'))\<rparr>)"
proof -
  let ?out = "process_query env tools mem query"
  let ?m = "routing_messages env tools (add_user_message mem query) query"
  have next_query: "\<forall>env' query'.
             plain_reply env' tools (memory ?out) query' \<longrightarrow>
             process_query env' tools (memory ?out) query' =
               (start_state env' tools (memory ?out) query')
                 \<lparr>yielded := [full_text (routing_reply env' tools (memory ?out) query')],
                  memory := add_assistant_message (add_user_message (memory ?out) query')
                    (full_text (routing_reply env' tools (memory ?out) query'))\<rparr>"
    using process_query_plain by blast
  have main: "yielded ?out \<noteq> []
       \<and> last (yielded ?out) = (case c of FallbackCall m \<Rightarrow> general_error_text e | _ \<Rightarrow> error_text e)
       \<and> (case c of
             ResultCall m \<Rightarrow>
               (\<exists>name resp. memory ?out
                  = add_tool_message (json_dumps env) (add_user_message mem query) name resp)
           | _ \<Rightarrow> memory ?out = add_user_message mem query)"
  proof (cases "failure_of (routing_reply env tools mem query)")
    case (Some e0)
    from process_query_routing_failed [OF this]
    have out: "?out = (start_state env tools mem query)\<lparr>yielded := [error_text e0]\<rparr>" .
    with assms(1) have c: "c = RoutingCall ?m" by (simp add: start_state_fields)
    with assms(2) Some have "e0 = e" by (simp add: routing_reply_def)
    with out c show ?thesis by (simp add: start_state_fields)
  next
    case None
    then have rok: "failure_of (stream_async env ?m) = None" by (simp add: routing_reply_def)
    show ?thesis
    proof (cases "intent env tools mem query")
      case no: None
      from process_query_no_intent [OF None no]
      have "calls ?out = [RoutingCall ?m]" by (auto simp: start_state_fields)
      from routing_call_only [OF this assms rok] show ?thesis ..
    next
      case (Some d)
      show ?thesis
      proof (cases "lookup_tool env tools (dict_get d ''tool_name'' JNull)")
        case (Inl e1)
        from process_query_lookup_raised [OF Some this]
        have "calls ?out = [RoutingCall ?m]" by (simp add: start_state_fields)
        from routing_call_only [OF this assms rok] show ?thesis ..
      next
        case (Inr found)
        show ?thesis
        proof (cases found)
          case no: None
          with Inr have lk: "lookup_tool env tools (dict_get d ''tool_name'' JNull) = Inr None"
            by simp
          note out = process_query_fallback [OF Some lk]
          from assms(1) have "c = RoutingCall ?m \<or> c = FallbackCall (fallback_messages query)"
            by (simp add: out answer_with_llm_fields start_state_fields)
          with assms(2) rok have c: "c = FallbackCall (fallback_messages query)"
            and f: "failure_of (stream_async env (fallback_messages query)) = Some e"
            by auto
          show ?thesis
            by (simp add: out c f answer_with_llm_fields start_state_fields)
        next
          case (Some tool)
          with Inr have lk: "lookup_tool env tools (dict_get d ''tool_name'' JNull) = Inr (Some tool)"
            by simp
          note out = process_query_tool [OF \<open>intent env tools mem query = Some d\<close> lk]
          let ?name = "fmt env (dict_get d ''tool_name'' JNull)"
          let ?params = "dict_get d ''tool_parameters'' (JObject [])"
          let ?rm = "result_messages env ?name (run_tool env tool ?name ?params) query"
          from assms(1) have "c = RoutingCall ?m \<or> c = ToolCall ?name ?params \<or> c = ResultCall ?rm"
            by (simp add: out use_tool_fields start_state_fields)
          with assms(2) rok have c: "c = ResultCall ?rm"
            and f: "failure_of (stream_async env ?rm) = Some e"
            by auto
          show ?thesis
            by (simp add: out c f use_tool_fields start_state_fields) blast
        qed
      qed
    qed
  qed
  from main next_query show ?thesis by blast
qed


lemma sample_env_fields:
  "stream_async (sample_env llm) = llm"
  "get_system_prompt (sample_env llm) ts = sample_prompt"
  "format_exc (sample_env llm) e = ''Traceback (most recent call last):''"
  "json_dumps (sample_env llm) weather_payload = ''{\"temperature\": \"15C\"}''"
  "json_dumps (sample_env llm) refused_payload =
     ''{\"error\": \"Error executing tool get_weather: Connection refused\", \"details\": \"Traceback (most recent call last):\"}''"
  by (simp_all add: sample_env_def table_dumps_def weather_payload_def refused_payload_def)

lemma sample_run_tool:
  "run_tool (sample_env llm) working_tool name (JObject kvs) = weather_payload"
  "run_tool (sample_env llm) raising_tool ''get_weather'' (JObject kvs) = refused_payload"
  by (simp_all add: run_tool_def working_tool_def raising_tool_def refused_def
        refused_payload_def sample_env_fields)

lemma sample_refused:
  "call_execute env raising_tool (dict_get weather_intent ''tool_parameters'' (JObject []))
     = Inl refused"
  "JObject [(''error'', JString (''Error executing tool ''
                @ fmt (sample_env llm) (dict_get weather_intent ''tool_name'' JNull)
                @ '': '' @ exn_str refused)),
            (''details'', JString (format_exc (sample_env llm) refused))] = refused_payload"
  by (simp_all add: raising_tool_def refused_def refused_payload_def sample_env_fields
        weather_intent_def fmt_def)

lemma sample_routing_reply:
  "routing_reply (sample_env (scripted_llm first second)) tools mem query = first"
  by (simp add: routing_reply_def routing_messages_def sample_env_def scripted_llm_def)

lemma sample_result_reply:
  "stream_async (sample_env (scripted_llm first second)) (result_messages env' name resp query)
     = second"
  "scripted_llm first second (result_messages env' name resp query) = second"
  by (simp_all add: result_messages_def user_turn_def sample_env_def scripted_llm_def)

lemma sample_fallback_reply:
  "stream_async (sample_env (scripted_llm first second)) (fallback_messages query) = second"
  "scripted_llm first second (fallback_messages query) = second"
  by (simp_all add: fallback_messages_def sample_env_def scripted_llm_def sample_prompt_def)

lemma findall_weather_request:
  "findall weather_request =
     [''{\"use_tool\": true, \"tool_name\": \"get_weather\", \"tool_parameters\": {\"location\": \"London\"}}'']"
  by (simp add: weather_request_def matcher_eval)

lemma findall_unicorn_request: "findall unicorn_request = []"
  by (simp add: unicorn_request_def matcher_eval)

lemma sample_extract_weather:
  "extract_tool_call (json_loads (sample_env llm)) weather_request = Inr (Some weather_intent)"
  by (simp add: extract_tool_call_def findall_weather_request sample_env_def table_loads_def
        weather_intent_def)

lemma sample_loads_unicorn:
  "json_loads (sample_env llm) unicorn_request = Inr unicorn_intent"
  by (simp add: sample_env_def table_loads_def unicorn_request_def)

lemma sample_extract_unicorn:
  "extract_tool_call (json_loads (sample_env llm)) unicorn_request = Inr (Some unicorn_intent)"
  by (simp add: extract_tool_call_def findall_unicorn_request sample_loads_unicorn)
     (simp add: unicorn_intent_def)

lemma sample_intent_weather:
  "intent (sample_env (scripted_llm weather_first second)) tools mem query = Some weather_intent"
  by (simp add: intent_def sample_routing_reply weather_first_def full_text_def
        sample_extract_weather)
     (simp add: weather_intent_def)

lemma unicorn_first_text: "full_text unicorn_first = unicorn_request"
  by (simp add: full_text_def unicorn_first_def unicorn_request_def)

lemma sample_intent_unicorn:
  "intent (sample_env (scripted_llm unicorn_first second)) tools mem query = Some unicorn_intent"
proof -
  have "failure_of unicorn_first = None" by (simp add: unicorn_first_def)
  then show ?thesis
    by (simp add: intent_def sample_routing_reply unicorn_first_text sample_extract_unicorn)
       (simp add: unicorn_intent_def)
qed

lemma sample_lookup:
  "lookup_tool env [working_tool] (dict_get weather_intent ''tool_name'' JNull) = Inr (Some working_tool)"
  "lookup_tool env [raising_tool] (dict_get weather_intent ''tool_name'' JNull) = Inr (Some raising_tool)"
  "lookup_tool env [working_tool] (dict_get unicorn_intent ''tool_name'' JNull) = Inr None"
  by (simp_all add: weather_intent_def unicorn_intent_def tool_map_def working_tool_def
        raising_tool_def)

lemma sample_names:
  "fmt env (dict_get weather_intent ''tool_name'' JNull) = ''get_weather''"
  "fmt env (dict_get unicorn_intent ''tool_name'' JNull) = ''get_unicorn_price''"
  "dict_get weather_intent ''tool_parameters'' (JObject []) = JObject [(''location'', JString ''London'')]"
  by (simp_all add: weather_intent_def unicorn_intent_def fmt_def)

lemma sample_routing_messages:
  "routing_messages (sample_env llm) tools (add_user_message (init_memory 10) q) q =
     [\<lparr>role = ''system'', content = sample_prompt, msg_tool_name = None\<rparr>, user_turn q]"
  by (simp add: routing_messages_def sample_env_fields add_user_message_def init_memory_def
        truncate_history_def get_messages_def)

lemma sample_first_turn:
  "add_user_message (init_memory 10) q = \<lparr>max_turns = 10, messages = [user_turn q]\<rparr>"
  by (simp add: add_user_message_def init_memory_def truncate_history_def)

theorem at_most_two_model_calls_witness:
  "length (filter is_model_call
     (calls (process_query (sample_env (scripted_llm weather_first answer_second))
               [working_tool] (init_memory 10) weather_query))) \<le> 2"
  using at_most_two_model_calls [of "sample_env (scripted_llm weather_first answer_second)"
      "[working_tool]" "init_memory 10" weather_query]
  by auto

theorem unknown_tool_fallback_witness:
  "yielded (process_query (sample_env (scripted_llm unicorn_first answer_second))
              [working_tool] (init_memory 10) unicorn_query)
     = [''I attempted to use a tool called '' @ apostrophe @ ''get_unicorn_price'' @ apostrophe
          @ '', but it's not available. Let me answer based on what I know.'',
        ''It is '', ''a fine day.'']
   \<and> calls (process_query (sample_env (scripted_llm unicorn_first answer_second))
              [working_tool] (init_memory 10) unicorn_query)
     = [RoutingCall [\<lparr>role = ''system'', content = sample_prompt, msg_tool_name = None\<rparr>,
                     user_turn unicorn_query],
        FallbackCall (fallback_messages unicorn_query)]"
  using unknown_tool_fallback [of "sample_env (scripted_llm unicorn_first answer_second)"
      "[working_tool]" "init_memory 10" unicorn_query unicorn_intent,
      OF sample_intent_unicorn sample_lookup(3)]
  by (simp add: sample_fallback_reply answer_second_def unavailable_notice_def sample_names
        sample_routing_messages)

theorem fallback_ledger_witness:
  "messages (memory (process_query (sample_env (scripted_llm unicorn_first answer_second))
              [working_tool] (init_memory 10) unicorn_query))
     = [user_turn unicorn_query, assistant_turn ''It is a fine day.'']
   \<and> messages (memory (process_query (sample_env (scripted_llm unicorn_first (CallRaises unavailable)))
              [working_tool] (init_memory 10) unicorn_query))
     = [user_turn unicorn_query]
   \<and> last (yielded (process_query (sample_env (scripted_llm unicorn_first (CallRaises unavailable)))
              [working_tool] (init_memory 10) unicorn_query))
     = ''I encountered an error providing a general knowledge answer: Service unavailable''"
proof -
  have "messages (memory (process_query (sample_env (scripted_llm unicorn_first answer_second))
              [working_tool] (init_memory 10) unicorn_query))
     = [user_turn unicorn_query, assistant_turn ''It is a fine day.'']"
    using fallback_ledger [of "sample_env (scripted_llm unicorn_first answer_second)"
      "[working_tool]" "init_memory 10" unicorn_query unicorn_intent,
      OF sample_intent_unicorn sample_lookup(3)]
    by (simp add: sample_fallback_reply answer_second_def sample_first_turn
          add_assistant_message_def truncate_history_def)
  moreover have "messages (memory (process_query (sample_env (scripted_llm unicorn_first (CallRaises unavailable)))
              [working_tool] (init_memory 10) unicorn_query))
     = [user_turn unicorn_query]
   \<and> last (yielded (process_query (sample_env (scripted_llm unicorn_first (CallRaises unavailable)))
              [working_tool] (init_memory 10) unicorn_query))
     = ''I encountered an error providing a general knowledge answer: Service unavailable''"
    using fallback_ledger [of "sample_env (scripted_llm unicorn_first (CallRaises unavailable))"
      "[working_tool]" "init_memory 10" unicorn_query unicorn_intent,
      OF sample_intent_unicorn sample_lookup(3)]
    by (simp add: sample_fallback_reply sample_first_turn general_error_text_def unavailable_def)
  ultimately show ?thesis by simp
qed


theorem tool_exception_contained_witness:
  "yielded (process_query (sample_env (scripted_llm weather_first regret_second))
              [raising_tool] (init_memory 10) weather_query)
     = [using_tool_text ''get_weather'', ''I could not reach '', ''the weather service.'']
   \<and> messages (memory (process_query (sample_env (scripted_llm weather_first regret_second))
              [raising_tool] (init_memory 10) weather_query))
     = [user_turn weather_query,
        \<lparr>role = ''tool'',
         content = ''{\"error\": \"Error executing tool get_weather: Connection refused\", \"details\": \"Traceback (most recent call last):\"}'',
         msg_tool_name = Some ''get_weather''\<rparr>,
        assistant_turn ''I could not reach the weather service.'']"
proof -
  note th = tool_exception_contained [of "sample_env (scripted_llm weather_first regret_second)"
      "[raising_tool]" "init_memory 10" weather_query weather_intent raising_tool refused,
      OF sample_intent_weather sample_lookup(2) sample_refused(1), unfolded sample_refused(2)]
  from th show ?thesis
    by (simp add: sample_names sample_result_reply regret_second_def
          sample_first_turn add_tool_message_def add_assistant_message_def truncate_history_def
          tool_turn_def sample_env_fields)
qed

theorem tool_turn_kept_after_failure:
  "messages (memory (process_query (sample_env (scripted_llm weather_first (CallRaises unavailable)))
              [working_tool] (init_memory 10) weather_query))
     = [user_turn weather_query,
        \<lparr>role = ''tool'', content = ''{\"temperature\": \"15C\"}'',
         msg_tool_name = Some ''get_weather''\<rparr>]
   \<and> call_failure (sample_env (scripted_llm weather_first (CallRaises unavailable)))
         (ResultCall (result_messages (sample_env (scripted_llm weather_first (CallRaises unavailable)))
                        ''get_weather'' weather_payload weather_query))
       = Some unavailable
   \<and> messages (add_user_message (init_memory 10) weather_query) = [user_turn weather_query]"
  by (simp add: process_query_tool [OF sample_intent_weather sample_lookup(1)] use_tool_fields
        start_state_fields sample_names sample_run_tool sample_result_reply sample_first_turn
        add_tool_message_def truncate_history_def tool_turn_def sample_env_fields)

theorem model_failure_outcome_witness:
  "last (yielded (process_query (sample_env (scripted_llm weather_first (CallRaises unavailable)))
              [working_tool] (init_memory 10) weather_query))
     = ''I encountered an error: Service unavailable''
   \<and> memory (process_query (sample_env (scripted_llm (CallRaises unavailable) regret_second))
              [working_tool] (init_memory 10) weather_query)
     = \<lparr>max_turns = 10, messages = [user_turn weather_query]\<rparr>"
proof -
  let ?E = "sample_env (scripted_llm weather_first (CallRaises unavailable))"
  let ?c = "ResultCall (result_messages ?E ''get_weather'' weather_payload weather_query)"
  have c: "?c \<in> set (calls (process_query ?E [working_tool] (init_memory 10) weather_query))"
    by (simp add: process_query_tool [OF sample_intent_weather sample_lookup(1)] use_tool_fields
          sample_names sample_run_tool)
  have f: "call_failure ?E ?c = Some unavailable"
    by (simp add: sample_result_reply)
  have one: "last (yielded (process_query ?E [working_tool] (init_memory 10) weather_query))
     = ''I encountered an error: Service unavailable''"
    using model_failure_outcome [OF c f] by (simp add: error_text_def unavailable_def)
  let ?E' = "sample_env (scripted_llm (CallRaises unavailable) regret_second)"
  let ?c' = "RoutingCall (routing_messages ?E' [working_tool]
                (add_user_message (init_memory 10) weather_query) weather_query)"
  have rf: "failure_of (routing_reply ?E' [working_tool] (init_memory 10) weather_query)
              = Some unavailable"
    by (simp add: sample_routing_reply)
  have c': "?c' \<in> set (calls (process_query ?E' [working_tool] (init_memory 10) weather_query))"
    by (simp add: process_query_routing_failed [OF rf] start_state_fields)
  have f': "call_failure ?E' ?c' = Some unavailable"
    using rf by (simp add: routing_reply_def)
  have two: "memory (process_query ?E' [working_tool] (init_memory 10) weather_query)
     = \<lparr>max_turns = 10, messages = [user_turn weather_query]\<rparr>"
    using model_failure_outcome [OF c' f'] by (simp add: sample_first_turn)
  from one two show ?thesis by simp
qed

section \<open>The tools: proofs\<close>

lemma failure_payload_keys: "is_failure_payload (failure_payload error_msg details_text)"
  by (simp add: is_failure_payload_def failure_payload_def)

lemma weather_handlers_keys: "is_failure_payload (weather_handlers tenv e)"
  by (simp add: weather_handlers_def failure_payload_keys)

lemma stock_handlers_keys: "is_failure_payload (stock_handlers tenv e)"
  by (simp add: stock_handlers_def failure_payload_keys)

lemma weather_execute_missing:
  "\<not> truthy (kw_get kwargs ''location'' JNull) \<Longrightarrow>
     weather_execute tenv api_key kwargs = Inl (PyExn ValueError ''Location is required'')"
  by (simp add: weather_execute_def Let_def)

lemma weather_execute_no_key:
  "truthy (kw_get kwargs ''location'' JNull) \<Longrightarrow> no_key api_key \<Longrightarrow>
     weather_execute tenv api_key kwargs =
       Inr (failure_payload ''Weather API key is missing''
              ''Please provide a valid OpenWeatherMap API key in the configuration'')"
  by (simp add: weather_execute_def Let_def)

lemma weather_execute_returns:
  assumes "truthy (kw_get kwargs ''location'' JNull)"
  shows "\<exists>r. weather_execute tenv api_key kwargs = Inr r"
  using assms by (simp add: weather_execute_def Let_def split: sum.splits)

lemma stock_execute_missing:
  "\<not> truthy (kw_get kwargs ''symbol'' JNull) \<Longrightarrow>
     stock_execute tenv api_key kwargs = Inl (PyExn ValueError ''Stock symbol is required'')"
  by (simp add: stock_execute_def Let_def)

lemma stock_execute_returns:
  assumes "kw_get kwargs ''symbol'' JNull = JString s" and "s \<noteq> []"
  shows "\<exists>r. stock_execute tenv api_key kwargs = Inr r"
  using assms by (simp add: stock_execute_def Let_def split: sum.splits)


lemma and_then_Inr: "and_then r f = Inr v \<longleftrightarrow> (\<exists>x. r = Inr x \<and> f x = Inr v)"
  by (cases r) (simp_all add: and_then_def)

lemma weather_try_outcome:
  assumes "weather_try tenv api_key location units = Inr r"
  shows "is_failure_payload r
         \<or> (\<exists>body_text data.
               http_get tenv ''https://api.openweathermap.org/data/2.5/weather''
                 [(''q'', location), (''units'', units), (''appid'', key_value api_key)]
                 = Response 200 body_text (Inr data)
               \<and> format_weather tenv units data = Inr r)"
proof (cases "http_get tenv ''https://api.openweathermap.org/data/2.5/weather''
                 [(''q'', location), (''units'', units), (''appid'', key_value api_key)]")
  case (RequestRaises e)
  with assms show ?thesis by (simp add: weather_try_def)
next
  case (Response status body_text body_json)
  show ?thesis
  proof (cases "status = 200")
    case True
    with assms Response obtain data where "body_json = Inr data"
      and "format_weather tenv units data = Inr r"
      by (auto simp: weather_try_def and_then_Inr)
    with Response True show ?thesis by simp
  next
    case False
    with assms Response obtain error_data where
      "r = failure_payload (''Weather API error: '' @ tfmt tenv (JInt status)) error_data"
      by (auto simp: weather_try_def and_then_Inr)
    then show ?thesis by (simp add: failure_payload_keys)
  qed
qed

lemma weather_execute_outcome:
  assumes "truthy (kw_get kwargs ''location'' JNull)"
  shows "\<exists>r. weather_execute tenv api_key kwargs = Inr r
           \<and> (is_failure_payload r
                \<or> (\<not> no_key api_key
                    \<and> (\<exists>body_text data.
                          weather_response tenv api_key kwargs = Response 200 body_text (Inr data)
                          \<and> format_weather tenv (units_of kwargs) data = Inr r)))"
proof (cases "no_key api_key")
  case True
  with assms show ?thesis by (simp add: weather_execute_no_key failure_payload_keys)
next
  case False
  let ?attempt = "weather_try tenv api_key (kw_get kwargs ''location'' JNull) (units_of kwargs)"
  have ex: "weather_execute tenv api_key kwargs =
          (case ?attempt of Inr payload \<Rightarrow> Inr payload | Inl e \<Rightarrow> Inr (weather_handlers tenv e))"
    using assms False by (simp add: weather_execute_def Let_def units_of_def)
  show ?thesis
  proof (cases ?attempt)
    case (Inl e)
    with ex show ?thesis by (simp add: weather_handlers_keys)
  next
    case (Inr r)
    from weather_try_outcome [OF this] Inr ex False show ?thesis
      by (auto simp: weather_response_def)
  qed
qed

lemma stock_quote_outcome:
  assumes "stock_quote tenv symbol data = Inr r"
  shows "is_failure_payload r
         \<or> (\<exists>quote entries.
               subscript tenv data ''Global Quote'' = Inr quote \<and> truthy quote
               \<and> format_quote tenv symbol quote = Inr entries
               \<and> r = JObject (entries @ [(''fetched_at'', JString (now_isoformat tenv))]))"
proof -
  from assms obtain present quote where p: "contains tenv data ''Global Quote'' = Inr present"
    and q: "(if present then subscript tenv data ''Global Quote'' else Inr JNull) = Inr quote"
    and r: "(if \<not> present \<or> \<not> truthy quote
       then Inr (failure_payload (''No data found for symbol: '' @ symbol)
                   ''The requested stock symbol may be invalid or not available'')
       else
         (case format_quote tenv symbol quote of
            Inr formatted_response \<Rightarrow>
              Inr (JObject (formatted_response @ [(''fetched_at'', JString (now_isoformat tenv))]))
          | Inl e \<Rightarrow>
              if exn_cls e \<in> set [ValueError, JSONDecodeError, TypeError]
              then Inr (failure_payload (''Error parsing stock data: '' @ exn_str e)
                          (''Raw data: '' @ dumps_quote tenv quote))
              else Inl e)) = Inr r"
    unfolding stock_quote_def and_then_Inr by blast
  show ?thesis
  proof (cases "\<not> present \<or> \<not> truthy quote")
    case True
    with r show ?thesis by (auto simp: failure_payload_keys)
  next
    case False
    with q have sq: "subscript tenv data ''Global Quote'' = Inr quote" and tq: "truthy quote"
      by simp_all
    show ?thesis
    proof (cases "format_quote tenv symbol quote")
      case (Inl e)
      with r False show ?thesis by (auto simp: failure_payload_keys split: if_splits)
    next
      case (Inr entries)
      with r False have "r = JObject (entries @ [(''fetched_at'', JString (now_isoformat tenv))])"
        by auto
      with sq tq Inr show ?thesis by blast
    qed
  qed
qed

lemma stock_try_outcome:
  assumes "stock_try tenv api_key symbol = Inr r"
  shows "is_failure_payload r
         \<or> (\<exists>body_text data.
               http_get tenv ''https://www.alphavantage.co/query''
                 [(''function'', JString ''GLOBAL_QUOTE''), (''symbol'', JString symbol),
                  (''apikey'', key_value api_key)]
                 = Response 200 body_text (Inr data)
               \<and> stock_quote tenv symbol data = Inr r)"
proof (cases "http_get tenv ''https://www.alphavantage.co/query''
                 [(''function'', JString ''GLOBAL_QUOTE''), (''symbol'', JString symbol),
                  (''apikey'', key_value api_key)]")
  case (RequestRaises e)
  with assms show ?thesis by (simp add: stock_try_def)
next
  case (Response status body_text body_json)
  show ?thesis
  proof (cases "status = 200")
    case True
    with assms Response obtain data where "body_json = Inr data"
      and "stock_quote tenv symbol data = Inr r"
      by (auto simp: stock_try_def and_then_Inr)
    with Response True show ?thesis by simp
  next
    case False
    with assms Response obtain error_data where
      "r = failure_payload (''Stock API error: '' @ tfmt tenv (JInt status)) error_data"
      by (auto simp: stock_try_def and_then_Inr)
    then show ?thesis by (simp add: failure_payload_keys)
  qed
qed

lemma stock_execute_outcome:
  assumes "kw_get kwargs ''symbol'' JNull = JString s" and "s \<noteq> []"
  shows "\<exists>r. stock_execute tenv api_key kwargs = Inr r
           \<and> (is_failure_payload r
                \<or> (\<not> no_key api_key
                    \<and> (\<exists>body_text data quote entries.
                          stock_response tenv api_key s = Response 200 body_text (Inr data)
                          \<and> subscript tenv data ''Global Quote'' = Inr quote \<and> truthy quote
                          \<and> format_quote tenv (str_upper tenv (strip s)) quote = Inr entries
                          \<and> r = JObject (entries @ [(''fetched_at'', JString (now_isoformat tenv))]))))"
proof (cases "no_key api_key")
  case True
  with assms show ?thesis by (simp add: stock_execute_def Let_def failure_payload_keys)
next
  case False
  let ?attempt = "stock_try tenv api_key (str_upper tenv (strip s))"
  have ex: "stock_execute tenv api_key kwargs =
          (case ?attempt of Inr payload \<Rightarrow> Inr payload | Inl e \<Rightarrow> Inr (stock_handlers tenv e))"
    using assms False by (simp add: stock_execute_def Let_def)
  show ?thesis
  proof (cases ?attempt)
    case (Inl e)
    with ex show ?thesis by (simp add: stock_handlers_keys)
  next
    case (Inr r)
    from stock_try_outcome [OF this] have
      "is_failure_payload r
       \<or> (\<exists>body_text data. stock_response tenv api_key s = Response 200 body_text (Inr data)
              \<and> stock_quote tenv (str_upper tenv (strip s)) data = Inr r)"
      by (simp add: stock_response_def)
    then show ?thesis
    proof
      assume "is_failure_payload r"
      with Inr ex show ?thesis by simp
    next
      assume "\<exists>body_text data. stock_response tenv api_key s = Response 200 body_text (Inr data)
              \<and> stock_quote tenv (str_upper tenv (strip s)) data = Inr r"
      then obtain body_text data
        where resp: "stock_response tenv api_key s = Response 200 body_text (Inr data)"
          and sq: "stock_quote tenv (str_upper tenv (strip s)) data = Inr r" by blast
      from stock_quote_outcome [OF sq] resp Inr ex False show ?thesis by auto
    qed
  qed
qed


text \<open>
  C3, as the code has it. With the required parameter present (a true \<^verbatim>\<open>location\<close>, a
  non-empty string \<^verbatim>\<open>symbol\<close>) \<^verbatim>\<open>execute\<close> of either registered tool raises nothing:
  it returns a payload, and that payload has the keys \<^verbatim>\<open>error\<close> and \<^verbatim>\<open>details\<close> unless the
  API key is there and the upstream answered with status 200 and a body that decodes
  and formats without an exception. With the required parameter missing or empty it
  raises \<^verbatim>\<open>ValueError\<close>.
\<close>

theorem expected_failures_contained:
  "(truthy (kw_get kwargs ''location'' JNull) \<longrightarrow>
      (\<exists>r. execute (WeatherTool tenv api_key) kwargs = Inr r
         \<and> (is_failure_payload r
              \<or> (\<not> no_key api_key
                  \<and> (\<exists>body_text data.
                        weather_response tenv api_key kwargs = Response 200 body_text (Inr data)
                        \<and> format_weather tenv (units_of kwargs) data = Inr r)))))
   \<and> (kw_get kwargs ''symbol'' JNull = JString s \<and> s \<noteq> [] \<longrightarrow>
      (\<exists>r. execute (StockTool tenv api_key) kwargs = Inr r
         \<and> (is_failure_payload r
              \<or> (\<not> no_key api_key
                  \<and> (\<exists>body_text data quote entries.
                        stock_response tenv api_key s = Response 200 body_text (Inr data)
                        \<and> subscript tenv data ''Global Quote'' = Inr quote \<and> truthy quote
                        \<and> format_quote tenv (str_upper tenv (strip s)) quote = Inr entries
                        \<and> r = JObject (entries @ [(''fetched_at'', JString (now_isoformat tenv))]))))))
   \<and> (\<not> truthy (kw_get kwargs ''location'' JNull) \<longrightarrow>
        execute (WeatherTool tenv api_key) kwargs = Inl (PyExn ValueError ''Location is required''))
   \<and> (\<not> truthy (kw_get kwargs ''symbol'' JNull) \<longrightarrow>
        execute (StockTool tenv api_key) kwargs = Inl (PyExn ValueError ''Stock symbol is required''))"
proof (intro conjI impI)
  assume "truthy (kw_get kwargs ''location'' JNull)"
  from weather_execute_outcome [OF this, of tenv api_key]
  show "\<exists>r. execute (WeatherTool tenv api_key) kwargs = Inr r
         \<and> (is_failure_payload r
              \<or> (\<not> no_key api_key
                  \<and> (\<exists>body_text data.
                        weather_response tenv api_key kwargs = Response 200 body_text (Inr data)
                        \<and> format_weather tenv (units_of kwargs) data = Inr r)))"
    by (simp add: WeatherTool_def)
next
  assume "kw_get kwargs ''symbol'' JNull = JString s \<and> s \<noteq> []"
  then have "kw_get kwargs ''symbol'' JNull = JString s" and "s \<noteq> []" by simp_all
  from stock_execute_outcome [OF this, of tenv api_key]
  show "\<exists>r. execute (StockTool tenv api_key) kwargs = Inr r
         \<and> (is_failure_payload r
              \<or> (\<not> no_key api_key
                  \<and> (\<exists>body_text data quote entries.
                        stock_response tenv api_key s = Response 200 body_text (Inr data)
                        \<and> subscript tenv data ''Global Quote'' = Inr quote \<and> truthy quote
                        \<and> format_quote tenv (str_upper tenv (strip s)) quote = Inr entries
                        \<and> r = JObject (entries @ [(''fetched_at'', JString (now_isoformat tenv))]))))"
    by (simp add: StockTool_def)
next
  assume "\<not> truthy (kw_get kwargs ''location'' JNull)"
  then show "execute (WeatherTool tenv api_key) kwargs = Inl (PyExn ValueError ''Location is required'')"
    by (simp add: WeatherTool_def weather_execute_missing)
next
  assume "\<not> truthy (kw_get kwargs ''symbol'' JNull)"
  then show "execute (StockTool tenv api_key) kwargs = Inl (PyExn ValueError ''Stock symbol is required'')"
    by (simp add: StockTool_def stock_execute_missing)
qed

lemma offline_responses:
  "weather_response offline_env api_key kwargs = RequestRaises (PyExn ClientError ''Cannot connect to host'')"
  "stock_response offline_env api_key s = RequestRaises (PyExn ClientError ''Cannot connect to host'')"
  by (simp_all add: weather_response_def stock_response_def offline_env_def)

lemma london_kwargs:
  "truthy (kw_get [(''location'', JString ''London'')] ''location'' JNull)"
  "kw_get [(''symbol'', JString ''aapl'')] ''symbol'' JNull = JString ''aapl''"
  by (simp_all add: kw_get_def)

theorem expected_failures_contained_witness:
  "(\<exists>r. execute (WeatherTool offline_env (Some ''key'')) [(''location'', JString ''London'')] = Inr r
        \<and> is_failure_payload r)
   \<and> (\<exists>r. execute (StockTool offline_env (Some ''key'')) [(''symbol'', JString ''aapl'')] = Inr r
        \<and> is_failure_payload r)"
proof -
  note th = expected_failures_contained [of "[(''location'', JString ''London'')]" offline_env
      "Some ''key''" "''aapl''"]
  note th' = expected_failures_contained [of "[(''symbol'', JString ''aapl'')]" offline_env
      "Some ''key''" "''aapl''"]
  from th london_kwargs(1)
  have "\<exists>r. execute (WeatherTool offline_env (Some ''key'')) [(''location'', JString ''London'')] = Inr r
        \<and> is_failure_payload r"
    by (simp add: offline_responses)
  moreover from th' london_kwargs(2)
  have "\<exists>r. execute (StockTool offline_env (Some ''key'')) [(''symbol'', JString ''aapl'')] = Inr r
        \<and> is_failure_payload r"
    by (simp add: offline_responses)
  ultimately show ?thesis by simp
qed

text \<open>
  C3 as stated fails: with no parameters both tools raise past \<^verbatim>\<open>execute\<close>.
\<close>

theorem missing_parameter_raises:
  "execute (WeatherTool offline_env (Some ''key'')) [] = Inl (PyExn ValueError ''Location is required'')
   \<and> execute (StockTool offline_env (Some ''key'')) [] = Inl (PyExn ValueError ''Stock symbol is required'')"
  by (simp add: WeatherTool_def StockTool_def weather_execute_def stock_execute_def kw_get_def)

end
